theory Spec2Isabelle
  imports Main
begin

section \<open>Catalog service: data model\<close>

text \<open>
  The catalog server (\<^verbatim>\<open>catalog_service/server.py\<close>) keeps two MongoDB collections,
  \<^verbatim>\<open>directories\<close> and \<^verbatim>\<open>files\<close>. A stored document is a dictionary; the fields the
  handlers read with \<^verbatim>\<open>doc.get(...)\<close> may be absent and are options here, the fields
  read with \<^verbatim>\<open>doc[...]\<close> are always written by the create operations and are plain.
  User identities are the integer \<^verbatim>\<open>ID\<close> of the user message returned by the
  authentication service; no arithmetic is done on them.
\<close>

type_synonym user = int

type_synonym oid = string

record doc =
  doc_id :: oid
  name :: string
  is_public :: "bool option"
  owner_id :: "user option"
  allowed_readers :: "user list option"
  allowed_writers :: "user list option"

record dir_doc = doc +
  parent_id :: "string option"

record file_doc = doc +
  parent_directory_id :: "string option"
  external_file_id :: string

text \<open>\<^verbatim>\<open>dict.get(key, default)\<close> on an optional field.\<close>

definition get_or :: "'a option \<Rightarrow> 'a \<Rightarrow> 'a" where
  "get_or v dflt = (case v of None \<Rightarrow> dflt | Some x \<Rightarrow> x)"

section \<open>Permission evaluator\<close>

text \<open>
  \<^verbatim>\<open>_can_read(doc, user_id)\<close> and \<^verbatim>\<open>_can_write(doc, user_id)\<close>; \<open>None\<close> is the
  anonymous caller. The comparison \<^verbatim>\<open>user_id == doc.get('owner_id')\<close> is made after
  \<^verbatim>\<open>user_id is None\<close> has been excluded, so an absent owner never matches.
\<close>

definition can_read :: "'a doc_scheme \<Rightarrow> user option \<Rightarrow> bool" where
  "can_read d user_id =
     (if get_or (is_public d) False then True
      else if user_id = None then False
      else if user_id = owner_id d then True
      else if the user_id \<in> set (get_or (allowed_readers d) []) then True
      else if the user_id \<in> set (get_or (allowed_writers d) []) then True
      else False)"

definition can_write :: "'a doc_scheme \<Rightarrow> user option \<Rightarrow> bool" where
  "can_write d user_id =
     (if user_id = None then False
      else if user_id = owner_id d then True
      else if the user_id \<in> set (get_or (allowed_writers d) []) then True
      else False)"

section \<open>Python strings, dictionaries and raised exceptions\<close>

text \<open>
  Everything a handler can end with other than a response: \<^verbatim>\<open>context.abort(code,
  details)\<close>, and the Python exceptions that the expressions of the handlers can raise
  (\<^verbatim>\<open>InvalidId\<close> from \<^verbatim>\<open>ObjectId(...)\<close>, \<^verbatim>\<open>IndexError\<close> from list indexing,
  \<^verbatim>\<open>TypeError\<close> from subscripting \<^verbatim>\<open>None\<close>). A failure of an outbound call to a
  collaborator is an \<^verbatim>\<open>RpcError\<close>.
\<close>

datatype StatusCode = UNAUTHENTICATED | NOT_FOUND | PERMISSION_DENIED | INTERNAL | UNAVAILABLE

datatype error =
    Abort StatusCode string
  | RpcError StatusCode string
  | InvalidId string
  | IndexError
  | TypeError

text \<open>\<^verbatim>\<open>s.startswith(p)\<close>.\<close>

definition startswith :: "string \<Rightarrow> string \<Rightarrow> bool" where
  "startswith s p = (take (length p) s = p)"

text \<open>\<^verbatim>\<open>s.split(sep)\<close> for a one-character separator: never an empty list.\<close>

fun split :: "string \<Rightarrow> char \<Rightarrow> string list" where
  "split [] sep = [[]]"
| "split (c # cs) sep =
     (if c = sep then [] # split cs sep
      else (case split cs sep of [] \<Rightarrow> [[c]] | w # ws \<Rightarrow> (c # w) # ws))"

text \<open>\<^verbatim>\<open>xs[i]\<close> for \<open>i \<ge> 0\<close> and \<^verbatim>\<open>xs[-1]\<close>; both raise \<^verbatim>\<open>IndexError\<close> out of range.\<close>

definition index :: "'a list \<Rightarrow> nat \<Rightarrow> error + 'a" where
  "index xs i = (if i < length xs then Inr (xs ! i) else Inl IndexError)"

definition index_last :: "'a list \<Rightarrow> error + 'a" where
  "index_last xs = (case rev xs of [] \<Rightarrow> Inl IndexError | x # _ \<Rightarrow> Inr x)"

text \<open>\<^verbatim>\<open>p in s\<close> for strings: \<open>p\<close> occurs in \<open>s\<close> as a contiguous substring.\<close>

fun contains :: "string \<Rightarrow> string \<Rightarrow> bool" where
  "contains p [] = (p = [])"
| "contains p (c # cs) = (startswith (c # cs) p \<or> contains p cs)"

text \<open>
  Call metadata is a sequence of key/value pairs; \<^verbatim>\<open>dict(metadata).get(key)\<close> keeps the
  last value of a repeated key.
\<close>

type_synonym metadata = "(string \<times> string) list"

definition metadata_get :: "metadata \<Rightarrow> string \<Rightarrow> string option" where
  "metadata_get meta key = map_of (rev meta) key"

subsection \<open>Object identifiers\<close>

text \<open>
  \<^verbatim>\<open>ObjectId(s)\<close> of the bson library accepts a string of length 24 that
  \<^verbatim>\<open>bytes.fromhex\<close> can decode and raises \<^verbatim>\<open>InvalidId\<close> otherwise.
  \<^verbatim>\<open>bytes.fromhex\<close> skips ASCII whitespace between bytes and wants two hexadecimal
  digits per byte. An identifier is kept as the lower-case hexadecimal text of its
  bytes, which is what \<^verbatim>\<open>str(oid)\<close> gives back.
\<close>

definition hex_lower :: "char \<Rightarrow> char option" where
  "hex_lower c =
     (if c \<in> set ''0123456789abcdef'' then Some c
      else map_of (zip ''ABCDEF'' ''abcdef'') c)"

definition is_space :: "char \<Rightarrow> bool" where
  "is_space c = (c \<in> set [CHR '' '', CHR 0x09, CHR 0x0A, CHR 0x0B, CHR 0x0C, CHR 0x0D])"

fun fromhex :: "string \<Rightarrow> string option" where
  "fromhex [] = Some []"
| "fromhex [c] = (if is_space c then Some [] else None)"
| "fromhex (c # d # cs) =
     (if is_space c then fromhex (d # cs)
      else (case (hex_lower c, hex_lower d) of
              (Some a, Some b) \<Rightarrow> map_option (\<lambda>r. a # b # r) (fromhex cs)
            | _ \<Rightarrow> None))"

definition ObjectId :: "string \<Rightarrow> error + oid" where
  "ObjectId s =
     (if length s = 24
      then (case fromhex s of Some h \<Rightarrow> Inr h | None \<Rightarrow> Inl (InvalidId s))
      else Inl (InvalidId s))"

definition str_oid :: "oid \<Rightarrow> string" where
  "str_oid x = x"

section \<open>The document store and the collaborators\<close>

text \<open>
  A collection is the list of its documents in insertion order. The operations are the
  pymongo calls the handlers make: \<^verbatim>\<open>find_one\<close>, \<^verbatim>\<open>update_one\<close> and \<^verbatim>\<open>delete_one\<close>
  act on the first document with the given \<^verbatim>\<open>_id\<close>; \<^verbatim>\<open>find\<close>, \<^verbatim>\<open>count_documents\<close>
  and \<^verbatim>\<open>delete_many\<close> act on every document matching the filter. Faults of the store
  itself (connection loss) are not modelled.
\<close>

definition find_one :: "oid \<Rightarrow> 'a doc_scheme list \<Rightarrow> 'a doc_scheme option" where
  "find_one i col = List.find (\<lambda>d. doc_id d = i) col"

fun update_one ::
  "oid \<Rightarrow> ('a doc_scheme \<Rightarrow> 'a doc_scheme) \<Rightarrow> 'a doc_scheme list \<Rightarrow> 'a doc_scheme list" where
  "update_one i f [] = []"
| "update_one i f (d # ds) = (if doc_id d = i then f d # ds else d # update_one i f ds)"

fun delete_one :: "oid \<Rightarrow> 'a doc_scheme list \<Rightarrow> 'a doc_scheme list" where
  "delete_one i [] = []"
| "delete_one i (d # ds) = (if doc_id d = i then ds else d # delete_one i ds)"

definition find_docs :: "('a \<Rightarrow> bool) \<Rightarrow> 'a list \<Rightarrow> 'a list" where
  "find_docs q col = filter q col"

definition count_documents :: "('a \<Rightarrow> bool) \<Rightarrow> 'a list \<Rightarrow> nat" where
  "count_documents q col = length (filter q col)"

definition delete_many :: "('a \<Rightarrow> bool) \<Rightarrow> 'a list \<Rightarrow> 'a list" where
  "delete_many q col = filter (\<lambda>d. \<not> q d) col"

datatype log_entry =
    AccessDenied "user option" string
  | FileServiceError error

text \<open>
  The world a call runs in: the two collections, the two external collaborators
  (\<^verbatim>\<open>Auth.GetCurrentUser\<close> maps a session id to a user id or fails;
  \<^verbatim>\<open>File.DeleteFile\<close> takes an external id and may fail), the session ids and external
  ids sent to them so far, and the log.
\<close>

record world =
  dirs_col :: "dir_doc list"
  files_col :: "file_doc list"
  auth_service :: "string \<Rightarrow> error + user"
  file_service :: "string \<Rightarrow> error + unit"
  auth_calls :: "string list"
  file_calls :: "string list"
  log :: "log_entry list"

section \<open>Identity resolver and request gate\<close>

text \<open>
  The step both the gate and the resolver apply to a credential:
  \<^verbatim>\<open>if token.startswith('Bearer '): token = token.split(' ')[1]\<close>.
\<close>

definition bearer_token :: "string \<Rightarrow> error + string" where
  "bearer_token token =
     (if startswith token ''Bearer '' then index (split token CHR '' '') 1 else Inr token)"

text \<open>
  \<^verbatim>\<open>GetCurrentUser(SessionData(SessionID=token))\<close> inside \<^verbatim>\<open>try ... except:\<close>; the
  call is recorded whether it succeeds or not.
\<close>

definition get_current_user :: "world \<Rightarrow> string \<Rightarrow> user option \<times> world" where
  "get_current_user w token =
     (case auth_service w token of
        Inr uid \<Rightarrow> (Some uid, w\<lparr>auth_calls := auth_calls w @ [token]\<rparr>)
      | Inl e \<Rightarrow> (None, w\<lparr>auth_calls := auth_calls w @ [token]\<rparr>))"

text \<open>\<^verbatim>\<open>CatalogService._get_user_identity\<close>.\<close>

definition get_user_identity ::
  "world \<Rightarrow> metadata \<Rightarrow> (error + (user option \<times> bool)) \<times> world" where
  "get_user_identity w meta =
     (case metadata_get meta ''authorization'' of
        None \<Rightarrow> (Inr (None, False), w)
      | Some token \<Rightarrow>
          if token = [] then (Inr (None, False), w)
          else (case bearer_token token of
                  Inl e \<Rightarrow> (Inl e, w)
                | Inr t \<Rightarrow>
                    (case get_current_user w t of
                       (Some uid, w') \<Rightarrow> (Inr (Some uid, True), w')
                     | (None, w') \<Rightarrow> (Inr (None, False), w'))))"

text \<open>
  \<^verbatim>\<open>AuthInterceptor.intercept_service\<close>. A method handler takes the world and the
  request; \<^verbatim>\<open>_abort\<close> builds the handler that only aborts. The field \<open>rpc_method\<close> is
  \<^verbatim>\<open>handler_call_details.method\<close>.
\<close>

type_synonym ('q, 'r) handler = "world \<Rightarrow> 'q \<Rightarrow> (error + 'r) \<times> world"

record call_details =
  rpc_method :: string
  invocation_metadata :: metadata

definition abort_handler :: "StatusCode \<Rightarrow> string \<Rightarrow> ('q, 'r) handler" where
  "abort_handler code details = (\<lambda>w request. (Inl (Abort code details), w))"

text \<open>
  The three steps of \<^verbatim>\<open>intercept_service\<close>, in the order of the source:
  \<^verbatim>\<open>is_read_op = "Get" in method_name.split('/')[-1]\<close>; the token taken from the
  metadata, cut as above when it is not empty and starts with \<^verbatim>\<open>Bearer \<close>; and
  \<^verbatim>\<open>is_authenticated\<close>, true when the token is not empty and the call to the
  authentication service succeeds.
\<close>

definition is_read_op :: "string \<Rightarrow> error + bool" where
  "is_read_op method_name =
     (case index_last (split method_name CHR ''/'') of
        Inl e \<Rightarrow> Inl e
      | Inr seg \<Rightarrow> Inr (contains ''Get'' seg))"

definition gate_token :: "metadata \<Rightarrow> error + string option" where
  "gate_token meta =
     (case metadata_get meta ''authorization'' of
        None \<Rightarrow> Inr None
      | Some token \<Rightarrow>
          if token \<noteq> [] \<and> startswith token ''Bearer ''
          then (case index (split token CHR '' '') 1 of
                  Inl e \<Rightarrow> Inl e | Inr t \<Rightarrow> Inr (Some t))
          else Inr (Some token))"

definition gate_authenticated :: "world \<Rightarrow> string option \<Rightarrow> bool \<times> world" where
  "gate_authenticated w token =
     (case token of
        None \<Rightarrow> (False, w)
      | Some t \<Rightarrow>
          if t = [] then (False, w)
          else (case get_current_user w t of
                  (Some uid, w') \<Rightarrow> (True, w')
                | (None, w') \<Rightarrow> (False, w')))"

definition intercept_service ::
  "world \<Rightarrow> (call_details \<Rightarrow> ('q, 'r) handler) \<Rightarrow> call_details
     \<Rightarrow> (error + ('q, 'r) handler) \<times> world" where
  "intercept_service w continuation details =
     (case is_read_op (rpc_method details) of
        Inl e \<Rightarrow> (Inl e, w)
      | Inr read_op \<Rightarrow>
          (case gate_token (invocation_metadata details) of
             Inl e \<Rightarrow> (Inl e, w)
           | Inr token \<Rightarrow>
               (case gate_authenticated w token of
                  (is_authenticated, w') \<Rightarrow>
                    if is_authenticated then (Inr (continuation details), w')
                    else if read_op then (Inr (continuation details), w')
                    else (Inr (abort_handler UNAUTHENTICATED ''Auth required''), w'))))"

text \<open>
  The server runs the handler the gate returned on the request.
\<close>

definition serve_call ::
  "world \<Rightarrow> (call_details \<Rightarrow> ('q, 'r) handler) \<Rightarrow> call_details \<Rightarrow> 'q
     \<Rightarrow> (error + 'r) \<times> world" where
  "serve_call w continuation details request =
     (case intercept_service w continuation details of
        (Inl e, w') \<Rightarrow> (Inl e, w')
      | (Inr h, w') \<Rightarrow> h w' request)"

section \<open>Catalog engine\<close>

subsection \<open>Messages\<close>

record UpdateDirectoryRequest =
  ud_id :: string
  ud_name :: string
  ud_parent_id :: string
  ud_is_public :: bool
  ud_allowed_readers :: "user list"
  ud_allowed_writers :: "user list"

record UpdateFileRequest =
  uf_id :: string
  uf_name :: string
  uf_is_public :: bool
  uf_allowed_readers :: "user list"
  uf_allowed_writers :: "user list"

record DirectoryResponse =
  dr_id :: string
  dr_name :: string
  dr_parent_id :: string
  dr_is_public :: bool
  dr_owner_id :: user
  dr_allowed_readers :: "user list"
  dr_allowed_writers :: "user list"

record FileResponse =
  fr_id :: string
  fr_name :: string
  fr_external_file_id :: string
  fr_is_public :: bool
  fr_owner_id :: user
  fr_allowed_readers :: "user list"
  fr_allowed_writers :: "user list"

record DeleteResponse =
  success :: bool
  message :: string

record DirectoryContentResponse =
  directories :: "DirectoryResponse list"
  files :: "FileResponse list"

text \<open>
  The response built from a stored document, with the defaults of the \<^verbatim>\<open>.get\<close> calls;
  an absent owner leaves the integer field of the message at its default 0.
\<close>

definition directory_response :: "dir_doc \<Rightarrow> DirectoryResponse" where
  "directory_response d =
     \<lparr>dr_id = str_oid (doc_id d), dr_name = name d,
      dr_parent_id = get_or (parent_id d) [],
      dr_is_public = get_or (is_public d) False,
      dr_owner_id = get_or (owner_id d) 0,
      dr_allowed_readers = get_or (allowed_readers d) [],
      dr_allowed_writers = get_or (allowed_writers d) []\<rparr>"

definition file_response :: "file_doc \<Rightarrow> FileResponse" where
  "file_response f =
     \<lparr>fr_id = str_oid (doc_id f), fr_name = name f,
      fr_external_file_id = external_file_id f,
      fr_is_public = get_or (is_public f) False,
      fr_owner_id = get_or (owner_id f) 0,
      fr_allowed_readers = get_or (allowed_readers f) [],
      fr_allowed_writers = get_or (allowed_writers f) []\<rparr>"

subsection \<open>Partial updates\<close>

text \<open>
  \<^verbatim>\<open>update_fields\<close>: the dictionary handed to \<^verbatim>\<open>$set\<close>. A key that is not set is
  \<open>None\<close>; the value stored under \<^verbatim>\<open>parent_id\<close> is itself \<^verbatim>\<open>None\<close> for the root.
\<close>

record update_fields =
  set_name :: "string option"
  set_is_public :: "bool option"
  set_allowed_readers :: "user list option"
  set_allowed_writers :: "user list option"

record dir_update_fields = update_fields +
  set_parent_id :: "string option option"

definition none_if_empty :: "string \<Rightarrow> string option" where
  "none_if_empty s = (if s = [] then None else Some s)"

definition dir_update :: "UpdateDirectoryRequest \<Rightarrow> dir_doc \<Rightarrow> dir_update_fields" where
  "dir_update request d =
     \<lparr>set_name = (if ud_name request \<noteq> [] then Some (ud_name request) else None),
      set_is_public =
        (if Some (ud_is_public request) \<noteq> is_public d
         then Some (ud_is_public request) else None),
      set_allowed_readers =
        (if ud_allowed_readers request \<noteq> []
         then Some (ud_allowed_readers request) else None),
      set_allowed_writers =
        (if ud_allowed_writers request \<noteq> []
         then Some (ud_allowed_writers request) else None),
      set_parent_id =
        (if ud_parent_id request \<noteq> ''no_change''
         then Some (none_if_empty (ud_parent_id request)) else None)\<rparr>"

definition file_update :: "UpdateFileRequest \<Rightarrow> file_doc \<Rightarrow> update_fields" where
  "file_update request d =
     \<lparr>set_name = (if uf_name request \<noteq> [] then Some (uf_name request) else None),
      set_is_public =
        (if Some (uf_is_public request) \<noteq> is_public d
         then Some (uf_is_public request) else None),
      set_allowed_readers =
        (if uf_allowed_readers request \<noteq> []
         then Some (uf_allowed_readers request) else None),
      set_allowed_writers =
        (if uf_allowed_writers request \<noteq> []
         then Some (uf_allowed_writers request) else None)\<rparr>"

text \<open>\<^verbatim>\<open>if update_fields:\<close>, the dictionary has a key.\<close>

definition has_fields :: "'a update_fields_scheme \<Rightarrow> bool" where
  "has_fields u =
     (set_name u \<noteq> None \<or> set_is_public u \<noteq> None
      \<or> set_allowed_readers u \<noteq> None \<or> set_allowed_writers u \<noteq> None)"

definition dir_has_fields :: "dir_update_fields \<Rightarrow> bool" where
  "dir_has_fields u = (has_fields u \<or> set_parent_id u \<noteq> None)"

text \<open>\<^verbatim>\<open>{"$set": update_fields}\<close> on one document.\<close>

definition apply_set :: "'u update_fields_scheme \<Rightarrow> 'a doc_scheme \<Rightarrow> 'a doc_scheme" where
  "apply_set u d =
     d\<lparr>name := (case set_name u of None \<Rightarrow> name d | Some n \<Rightarrow> n),
       is_public := (case set_is_public u of None \<Rightarrow> is_public d | Some b \<Rightarrow> Some b),
       allowed_readers :=
         (case set_allowed_readers u of None \<Rightarrow> allowed_readers d | Some r \<Rightarrow> Some r),
       allowed_writers :=
         (case set_allowed_writers u of None \<Rightarrow> allowed_writers d | Some r \<Rightarrow> Some r)\<rparr>"

definition dir_apply_set :: "dir_update_fields \<Rightarrow> dir_doc \<Rightarrow> dir_doc" where
  "dir_apply_set u d =
     (apply_set u d)\<lparr>parent_id := (case set_parent_id u of None \<Rightarrow> parent_id d | Some p \<Rightarrow> p)\<rparr>"

subsection \<open>Handlers\<close>

text \<open>\<^verbatim>\<open>CatalogService.UpdateDirectory\<close>.\<close>

definition UpdateDirectory ::
  "world \<Rightarrow> metadata \<Rightarrow> UpdateDirectoryRequest \<Rightarrow> (error + DirectoryResponse) \<times> world" where
  "UpdateDirectory w meta request =
     (case get_user_identity w meta of
        (Inl e, w1) \<Rightarrow> (Inl e, w1)
      | (Inr (user_id, is_auth), w1) \<Rightarrow>
          if \<not> is_auth then (Inl (Abort UNAUTHENTICATED ''Auth required''), w1)
          else (case ObjectId (ud_id request) of
                  Inl e \<Rightarrow> (Inl e, w1)
                | Inr i \<Rightarrow>
                    (case find_one i (dirs_col w1) of
                       None \<Rightarrow> (Inl (Abort NOT_FOUND ''Directory not found''), w1)
                     | Some d \<Rightarrow>
                         if \<not> can_write d user_id
                         then (Inl (Abort PERMISSION_DENIED ''No write permission''), w1)
                         else
                           let u = dir_update request d;
                               w2 = (if dir_has_fields u
                                     then w1\<lparr>dirs_col :=
                                            update_one i (dir_apply_set u) (dirs_col w1)\<rparr>
                                     else w1)
                           in (case find_one i (dirs_col w2) of
                                 None \<Rightarrow> (Inl (Abort INTERNAL ''Update failed''), w2)
                               | Some updated \<Rightarrow> (Inr (directory_response updated), w2)))))"

text \<open>\<^verbatim>\<open>CatalogService.UpdateFile\<close>; its final lookup is outside any \<^verbatim>\<open>try\<close>.\<close>

definition UpdateFile ::
  "world \<Rightarrow> metadata \<Rightarrow> UpdateFileRequest \<Rightarrow> (error + FileResponse) \<times> world" where
  "UpdateFile w meta request =
     (case get_user_identity w meta of
        (Inl e, w1) \<Rightarrow> (Inl e, w1)
      | (Inr (user_id, is_auth), w1) \<Rightarrow>
          if \<not> is_auth then (Inl (Abort UNAUTHENTICATED ''Auth required''), w1)
          else (case ObjectId (uf_id request) of
                  Inl e \<Rightarrow> (Inl e, w1)
                | Inr i \<Rightarrow>
                    (case find_one i (files_col w1) of
                       None \<Rightarrow> (Inl (Abort NOT_FOUND ''File not found''), w1)
                     | Some d \<Rightarrow>
                         if \<not> can_write d user_id
                         then (Inl (Abort PERMISSION_DENIED ''No write permission''), w1)
                         else
                           let u = file_update request d;
                               w2 = (if has_fields u
                                     then w1\<lparr>files_col :=
                                            update_one i (apply_set u) (files_col w1)\<rparr>
                                     else w1)
                           in (case find_one i (files_col w2) of
                                 None \<Rightarrow> (Inl TypeError, w2)
                               | Some updated \<Rightarrow> (Inr (file_response updated), w2)))))"

text \<open>\<^verbatim>\<open>CatalogService.DeleteDirectory\<close>.\<close>

definition DeleteDirectory ::
  "world \<Rightarrow> metadata \<Rightarrow> string \<Rightarrow> (error + DeleteResponse) \<times> world" where
  "DeleteDirectory w meta request_id =
     (case get_user_identity w meta of
        (Inl e, w1) \<Rightarrow> (Inl e, w1)
      | (Inr (user_id, is_auth), w1) \<Rightarrow>
          if \<not> is_auth then (Inl (Abort UNAUTHENTICATED ''Auth required''), w1)
          else (case ObjectId request_id of
                  Inl e \<Rightarrow> (Inl e, w1)
                | Inr i \<Rightarrow>
                    (case find_one i (dirs_col w1) of
                       None \<Rightarrow> (Inl (Abort NOT_FOUND ''Not found''), w1)
                     | Some d \<Rightarrow>
                         if owner_id d \<noteq> user_id
                         then (Inl (Abort PERMISSION_DENIED ''Only owner can delete''), w1)
                         else if count_documents (\<lambda>c. parent_id c = Some request_id)
                                   (dirs_col w1) > 0
                         then (Inr \<lparr>success = False, message = ''Directory not empty''\<rparr>, w1)
                         else (Inr \<lparr>success = True, message = ''Deleted''\<rparr>,
                               w1\<lparr>files_col :=
                                     delete_many (\<lambda>f. parent_directory_id f = Some request_id)
                                       (files_col w1),
                                   dirs_col := delete_one i (dirs_col w1)\<rparr>))))"

text \<open>\<^verbatim>\<open>CatalogService.GetDirectoryContent\<close>.\<close>

definition GetDirectoryContent ::
  "world \<Rightarrow> metadata \<Rightarrow> string \<Rightarrow> (error + DirectoryContentResponse) \<times> world" where
  "GetDirectoryContent w meta directory_id =
     (case get_user_identity w meta of
        (Inl e, w1) \<Rightarrow> (Inl e, w1)
      | (Inr (user_id, is_auth), w1) \<Rightarrow>
          let pid = none_if_empty directory_id;
              listing =
                \<lparr>directories =
                   map directory_response
                     (filter (\<lambda>d. can_read d user_id)
                        (find_docs (\<lambda>d. parent_id d = pid) (dirs_col w1))),
                 files =
                   map file_response
                     (filter (\<lambda>f. can_read f user_id)
                        (find_docs (\<lambda>f. parent_directory_id f = pid) (files_col w1)))\<rparr>
          in (case pid of
                None \<Rightarrow> (Inr listing, w1)
              | Some p \<Rightarrow>
                  (case ObjectId p of
                     Inl e \<Rightarrow> (Inl e, w1)
                   | Inr i \<Rightarrow>
                       (case find_one i (dirs_col w1) of
                          None \<Rightarrow> (Inl (Abort NOT_FOUND ''Directory not found''), w1)
                        | Some target_dir \<Rightarrow>
                            if \<not> can_read target_dir user_id
                            then (Inl (Abort PERMISSION_DENIED
                                        ''You do not have permission to view this directory''),
                                  w1\<lparr>log := log w1 @ [AccessDenied user_id p]\<rparr>)
                            else (Inr listing, w1)))))"

text \<open>\<^verbatim>\<open>FileServiceClient.delete_files\<close>: one attempt per id, a failure is logged.\<close>

fun delete_files :: "world \<Rightarrow> string list \<Rightarrow> world" where
  "delete_files w [] = w"
| "delete_files w (ext_id # external_ids) =
     delete_files
       (case file_service w ext_id of
          Inr ack \<Rightarrow> w\<lparr>file_calls := file_calls w @ [ext_id]\<rparr>
        | Inl e \<Rightarrow> w\<lparr>file_calls := file_calls w @ [ext_id],
                      log := log w @ [FileServiceError e]\<rparr>)
       external_ids"

text \<open>\<^verbatim>\<open>CatalogService.DeleteFile\<close>.\<close>

definition DeleteFile ::
  "world \<Rightarrow> metadata \<Rightarrow> string \<Rightarrow> (error + DeleteResponse) \<times> world" where
  "DeleteFile w meta request_id =
     (case get_user_identity w meta of
        (Inl e, w1) \<Rightarrow> (Inl e, w1)
      | (Inr (user_id, is_auth), w1) \<Rightarrow>
          if \<not> is_auth then (Inl (Abort UNAUTHENTICATED ''Auth required''), w1)
          else (case ObjectId request_id of
                  Inl e \<Rightarrow> (Inl e, w1)
                | Inr i \<Rightarrow>
                    (case find_one i (files_col w1) of
                       None \<Rightarrow> (Inl (Abort NOT_FOUND ''File not found''), w1)
                     | Some d \<Rightarrow>
                         if owner_id d \<noteq> user_id
                         then (Inl (Abort PERMISSION_DENIED ''Only owner can delete file''), w1)
                         else (Inr \<lparr>success = True, message = ''Deleted''\<rparr>,
                               delete_files
                                 (w1\<lparr>files_col := delete_one i (files_col w1)\<rparr>)
                                 [external_file_id d]))))"

section \<open>The collaborators' mocks and an example world\<close>

text \<open>
  \<^verbatim>\<open>AuthServiceMock.GetCurrentUser\<close> (\<^verbatim>\<open>auth_service/main.py\<close>): the user of an active
  session, or an abort with \<^verbatim>\<open>UNAUTHENTICATED\<close>, which the caller sees as an
  \<^verbatim>\<open>RpcError\<close>. \<^verbatim>\<open>FileServiceMock.DeleteFile\<close> (\<^verbatim>\<open>file_service/main.py\<close>) always
  acknowledges; an unreachable file service fails every call.
\<close>

definition GetCurrentUser :: "(string \<rightharpoonup> user) \<Rightarrow> string \<Rightarrow> error + user" where
  "GetCurrentUser active_sessions session_id =
     (case active_sessions session_id of
        Some u \<Rightarrow> Inr u
      | None \<Rightarrow> Inl (RpcError UNAUTHENTICATED ''Invalid Session''))"

definition FileServiceMock :: "string \<Rightarrow> error + unit" where
  "FileServiceMock uuid = Inr ()"

definition file_service_down :: "string \<Rightarrow> error + unit" where
  "file_service_down uuid = Inl (RpcError UNAVAILABLE ''failed to connect'')"

text \<open>
  The users of the test suite (\<^verbatim>\<open>tests/test_suite.py\<close>, \<^verbatim>\<open>setUp\<close>): owner 100, writer
  200, reader 300, stranger 999, each with a session.
\<close>

definition test_sessions :: "string \<rightharpoonup> user" where
  "test_sessions =
     map_of [(''sess-owner'', 100), (''sess-writer'', 200), (''sess-reader'', 300),
             (''sess-stranger'', 999)]"

definition meta_owner :: metadata where
  "meta_owner = [(''authorization'', ''Bearer sess-owner'')]"

definition meta_writer :: metadata where
  "meta_writer = [(''authorization'', ''Bearer sess-writer'')]"

definition id_parent :: string where
  "id_parent = ''65a1f0c2b3d4e5f601020301''"

definition id_child :: string where
  "id_child = ''65a1f0c2b3d4e5f601020302''"

definition id_withfiles :: string where
  "id_withfiles = ''65a1f0c2b3d4e5f601020303''"

definition id_f1 :: string where
  "id_f1 = ''65a1f0c2b3d4e5f601020304''"

definition dir_parent :: dir_doc where
  "dir_parent =
     \<lparr>doc_id = id_parent, name = ''Parent'', is_public = Some True, owner_id = Some 100,
      allowed_readers = Some [], allowed_writers = Some [200], parent_id = None\<rparr>"

definition dir_child :: dir_doc where
  "dir_child =
     \<lparr>doc_id = id_child, name = ''Child'', is_public = Some False, owner_id = Some 100,
      allowed_readers = Some [300], allowed_writers = Some [], parent_id = Some id_parent\<rparr>"

definition dir_withfiles :: dir_doc where
  "dir_withfiles =
     \<lparr>doc_id = id_withfiles, name = ''WithFiles'', is_public = Some False,
      owner_id = Some 100, allowed_readers = Some [], allowed_writers = Some [],
      parent_id = None\<rparr>"

definition file_f1 :: file_doc where
  "file_f1 =
     \<lparr>doc_id = id_f1, name = ''f1'', is_public = Some False, owner_id = Some 100,
      allowed_readers = Some [], allowed_writers = Some [200],
      parent_directory_id = Some id_withfiles, external_file_id = ''e1''\<rparr>"

definition example_world :: world where
  "example_world =
     \<lparr>dirs_col = [dir_parent, dir_child, dir_withfiles], files_col = [file_f1],
      auth_service = GetCurrentUser test_sessions, file_service = FileServiceMock,
      auth_calls = [], file_calls = [], log = []\<rparr>"

text \<open>
  The server's dispatch (\<^verbatim>\<open>add_CatalogServiceServicer_to_server\<close>): the handler the
  continuation returns for a call runs the servicer method on the request and on the
  call's metadata.
\<close>

definition delete_directory_handler :: "call_details \<Rightarrow> (string, DeleteResponse) handler" where
  "delete_directory_handler details =
     (\<lambda>w request. DeleteDirectory w (invocation_metadata details) request)"

definition get_directory_content_handler ::
  "call_details \<Rightarrow> (string, DirectoryContentResponse) handler" where
  "get_directory_content_handler details =
     (\<lambda>w request. GetDirectoryContent w (invocation_metadata details) request)"

section \<open>The specification's reading of the credential\<close>

text \<open>
  The specification's words for the resolver's treatment of the credential, "strips a
  recognized prefix if present": the credential without its leading \<^verbatim>\<open>Bearer \<close>.
  It is compared below with \<open>bearer_token\<close>, which is what the code computes.
\<close>

definition spec_strip_prefix :: "string \<Rightarrow> string" where
  "spec_strip_prefix token =
     (if startswith token ''Bearer '' then drop (length ''Bearer '') token else token)"

section \<open>Properties of the permission evaluator\<close>

text \<open>
  C2. The read check is true exactly when the stored \<^verbatim>\<open>is_public\<close> is true, or the
  caller is not anonymous and is the stored owner, or is in the stored list of allowed
  readers or of allowed writers. A document without the ACL fields is read like one with
  \<open>is_public = False\<close> and empty lists: only by its owner.
\<close>

theorem can_read_iff:
  "can_read d caller =
     (is_public d = Some True \<or>
      (\<exists>u. caller = Some u \<and>
           (owner_id d = Some u
            \<or> (\<exists>rs. allowed_readers d = Some rs \<and> u \<in> set rs)
            \<or> (\<exists>ws. allowed_writers d = Some ws \<and> u \<in> set ws))))
   \<and> can_read (d\<lparr>is_public := None, allowed_readers := None, allowed_writers := None\<rparr>) caller
       = can_read (d\<lparr>is_public := Some False, allowed_readers := Some [],
                      allowed_writers := Some []\<rparr>) caller
   \<and> can_read (d\<lparr>is_public := None, allowed_readers := None, allowed_writers := None\<rparr>) caller
       = (\<exists>u. caller = Some u \<and> owner_id d = Some u)"
  by (cases caller; cases "is_public d"; cases "allowed_readers d"; cases "allowed_writers d")
     (auto simp: can_read_def get_or_def)

theorem can_read_iff_witness:
  "can_read \<lparr>doc_id = ''0123456789abcdef01234567'', name = ''Open'',
        is_public = Some True, owner_id = Some 100, allowed_readers = Some [],
        allowed_writers = Some []\<rparr> None
   \<and> can_read \<lparr>doc_id = ''0123456789abcdef01234567'', name = ''Wiki'',
        is_public = Some False, owner_id = Some 100, allowed_readers = Some [300],
        allowed_writers = Some [200]\<rparr> (Some 300)
   \<and> can_read \<lparr>doc_id = ''0123456789abcdef01234567'', name = ''Wiki'',
        is_public = Some False, owner_id = Some 100, allowed_readers = Some [300],
        allowed_writers = Some [200]\<rparr> (Some 200)
   \<and> \<not> can_read \<lparr>doc_id = ''0123456789abcdef01234567'', name = ''Wiki'',
        is_public = Some False, owner_id = Some 100, allowed_readers = Some [300],
        allowed_writers = Some [200]\<rparr> (Some 999)
   \<and> \<not> can_read \<lparr>doc_id = ''0123456789abcdef01234567'', name = ''Wiki'',
        is_public = Some False, owner_id = Some 100, allowed_readers = Some [300],
        allowed_writers = Some [200]\<rparr> None
   \<and> can_read \<lparr>doc_id = ''0123456789abcdef01234567'', name = ''Old'',
        is_public = None, owner_id = Some 100, allowed_readers = None,
        allowed_writers = None\<rparr> (Some 100)
   \<and> \<not> can_read \<lparr>doc_id = ''0123456789abcdef01234567'', name = ''Old'',
        is_public = None, owner_id = Some 100, allowed_readers = None,
        allowed_writers = None\<rparr> (Some 300)"
  using can_read_iff [of "\<lparr>doc_id = ''0123456789abcdef01234567'', name = ''Open'',
        is_public = Some True, owner_id = Some 100, allowed_readers = Some [],
        allowed_writers = Some []\<rparr>" None, THEN conjunct1]
    can_read_iff [of "\<lparr>doc_id = ''0123456789abcdef01234567'', name = ''Wiki'',
        is_public = Some False, owner_id = Some 100, allowed_readers = Some [300],
        allowed_writers = Some [200]\<rparr>" "Some 300", THEN conjunct1]
    can_read_iff [of "\<lparr>doc_id = ''0123456789abcdef01234567'', name = ''Wiki'',
        is_public = Some False, owner_id = Some 100, allowed_readers = Some [300],
        allowed_writers = Some [200]\<rparr>" "Some 200", THEN conjunct1]
    can_read_iff [of "\<lparr>doc_id = ''0123456789abcdef01234567'', name = ''Wiki'',
        is_public = Some False, owner_id = Some 100, allowed_readers = Some [300],
        allowed_writers = Some [200]\<rparr>" "Some 999", THEN conjunct1]
    can_read_iff [of "\<lparr>doc_id = ''0123456789abcdef01234567'', name = ''Wiki'',
        is_public = Some False, owner_id = Some 100, allowed_readers = Some [300],
        allowed_writers = Some [200]\<rparr>" None, THEN conjunct1]
    can_read_iff [of "\<lparr>doc_id = ''0123456789abcdef01234567'', name = ''Old'',
        is_public = None, owner_id = Some 100, allowed_readers = None,
        allowed_writers = None\<rparr>" "Some 100", THEN conjunct1]
    can_read_iff [of "\<lparr>doc_id = ''0123456789abcdef01234567'', name = ''Old'',
        is_public = None, owner_id = Some 100, allowed_readers = None,
        allowed_writers = None\<rparr>" "Some 300", THEN conjunct1]
  by simp



section \<open>Lemmas on the string operations\<close>

lemma split_nonempty: "split s c \<noteq> []"
  by (induction s) (auto split: list.splits)

lemma split_cons_notsep:
  "x \<noteq> c \<Longrightarrow> split (x # s) c = (x # hd (split s c)) # tl (split s c)"
  using split_nonempty [of s c] by (cases "split s c") auto

lemma split_notin: "c \<notin> set s \<Longrightarrow> split s c = [s]"
  by (induction s) auto

lemma split_append_sep:
  "c \<notin> set a \<Longrightarrow> split (a @ c # rest) c = a # split rest c"
  by (induction a) (auto simp: split_cons_notsep)

lemma hd_split: "hd (split s c) = takeWhile (\<lambda>x. x \<noteq> c) s"
  by (induction s) (auto split: list.splits simp: split_nonempty)

lemma startswith_iff: "startswith s p = (\<exists>r. s = p @ r)"
proof
  assume "startswith s p"
  then have "s = p @ drop (length p) s"
    unfolding startswith_def by (metis append_take_drop_id)
  then show "\<exists>r. s = p @ r" ..
next
  assume "\<exists>r. s = p @ r"
  then show "startswith s p" by (auto simp: startswith_def)
qed

lemma index_second: "index (split (''Bearer '' @ rest) CHR '' '') 1
   = Inr (takeWhile (\<lambda>x. x \<noteq> CHR '' '') rest)"
proof -
  have "split (''Bearer'' @ CHR '' '' # rest) CHR '' '' = ''Bearer'' # split rest CHR '' ''"
    by (rule split_append_sep) simp
  then have s: "split (''Bearer '' @ rest) CHR '' '' = ''Bearer'' # split rest CHR '' ''"
    by simp
  have "split rest CHR '' '' \<noteq> []" by (rule split_nonempty)
  then have "(split rest CHR '' '') ! 0 = hd (split rest CHR '' '')"
    by (simp add: hd_conv_nth)
  then show ?thesis
    unfolding s index_def using split_nonempty [of rest "CHR '' ''"]
    by (simp add: hd_split)
qed

lemma bearer_token_eq:
  "bearer_token token =
     Inr (if startswith token ''Bearer ''
          then takeWhile (\<lambda>x. x \<noteq> CHR '' '') (drop 7 token) else token)"
proof (cases "startswith token ''Bearer ''")
  case True
  then obtain rest where t: "token = ''Bearer '' @ rest" by (auto simp: startswith_iff)
  have "drop 7 token = rest" unfolding t by simp
  then show ?thesis using True index_second [of rest] t by (simp add: bearer_token_def)
next
  case False
  then show ?thesis by (simp add: bearer_token_def)
qed

section \<open>Properties of the identity resolver\<close>

lemma get_user_identity_absent:
  "metadata_get meta ''authorization'' = None \<or> metadata_get meta ''authorization'' = Some []
   \<Longrightarrow> get_user_identity w meta = (Inr (None, False), w)"
  by (auto simp: get_user_identity_def)

lemma get_user_identity_present:
  assumes "metadata_get meta ''authorization'' = Some token" "token \<noteq> []"
  shows "get_user_identity w meta =
     (let t = (if startswith token ''Bearer ''
               then takeWhile (\<lambda>x. x \<noteq> CHR '' '') (drop 7 token) else token)
      in (case auth_service w t of
            Inr uid \<Rightarrow> Inr (Some uid, True)
          | Inl e \<Rightarrow> Inr (None, False),
          w\<lparr>auth_calls := auth_calls w @ [t]\<rparr>))"
  using assms
  by (simp add: get_user_identity_def bearer_token_eq get_current_user_def Let_def
      split: sum.splits)

text \<open>
  C8, as amended. With no credential in the metadata (or an empty one) the resolver
  returns (none, false) and the world is untouched, so no call is made. With a credential
  it makes exactly one call to the identity collaborator, with the credential itself or,
  when the credential starts with \<^verbatim>\<open>Bearer \<close>, with the text between that prefix and
  the next space; it returns the resolved identity with true when the call succeeds and
  (none, false) when it fails. It never raises.
\<close>

theorem get_user_identity_resolves:
  "(metadata_get meta ''authorization'' = None \<or> metadata_get meta ''authorization'' = Some []
      \<longrightarrow> get_user_identity w meta = (Inr (None, False), w))
   \<and> (\<forall>token. metadata_get meta ''authorization'' = Some token \<and> token \<noteq> [] \<longrightarrow>
         get_user_identity w meta =
           (let t = (if startswith token ''Bearer ''
                     then takeWhile (\<lambda>x. x \<noteq> CHR '' '') (drop 7 token) else token)
            in (case auth_service w t of
                  Inr uid \<Rightarrow> Inr (Some uid, True)
                | Inl e \<Rightarrow> Inr (None, False),
                w\<lparr>auth_calls := auth_calls w @ [t]\<rparr>)))
   \<and> (\<exists>r w'. get_user_identity w meta = (Inr r, w'))"
proof (intro conjI allI impI)
  assume "metadata_get meta ''authorization'' = None
          \<or> metadata_get meta ''authorization'' = Some []"
  then show "get_user_identity w meta = (Inr (None, False), w)"
    by (rule get_user_identity_absent)
next
  fix token
  assume "metadata_get meta ''authorization'' = Some token \<and> token \<noteq> []"
  then show "get_user_identity w meta =
           (let t = (if startswith token ''Bearer ''
                     then takeWhile (\<lambda>x. x \<noteq> CHR '' '') (drop 7 token) else token)
            in (case auth_service w t of
                  Inr uid \<Rightarrow> Inr (Some uid, True)
                | Inl e \<Rightarrow> Inr (None, False),
                w\<lparr>auth_calls := auth_calls w @ [t]\<rparr>))"
    using get_user_identity_present by blast
next
  show "\<exists>r w'. get_user_identity w meta = (Inr r, w')"
  proof (cases "metadata_get meta ''authorization''")
    case None
    then show ?thesis using get_user_identity_absent [of meta w] by blast
  next
    case (Some token)
    show ?thesis
    proof (cases "token = []")
      case True
      then show ?thesis using Some get_user_identity_absent [of meta w] by blast
    next
      case False
      show ?thesis
        unfolding get_user_identity_present [OF Some False] Let_def
        by (simp split: sum.splits) blast
    qed
  qed
qed

theorem get_user_identity_resolves_witness:
  "get_user_identity example_world meta_owner
     = (Inr (Some 100, True), example_world\<lparr>auth_calls := [''sess-owner'']\<rparr>)
   \<and> get_user_identity example_world [] = (Inr (None, False), example_world)"
  using get_user_identity_resolves [of meta_owner example_world]
        get_user_identity_resolves [of "[]" example_world]
  by (simp add: meta_owner_def metadata_get_def startswith_def example_world_def
      GetCurrentUser_def test_sessions_def Let_def)

text \<open>
  C8 as stated has the prefix stripped and nothing else. For the credential
  \<^verbatim>\<open>Bearer a b\<close> the collaborator resolves the stripped credential \<^verbatim>\<open>a b\<close>, but the
  resolver asks it about \<^verbatim>\<open>a\<close> and returns (none, false).
\<close>

theorem get_user_identity_prefix_counterexample:
  "auth_service (example_world\<lparr>auth_service := GetCurrentUser (map_of [(''a b'', 7)])\<rparr>)
       (spec_strip_prefix ''Bearer a b'') = Inr 7
   \<and> fst (get_user_identity
            (example_world\<lparr>auth_service := GetCurrentUser (map_of [(''a b'', 7)])\<rparr>)
            [(''authorization'', ''Bearer a b'')]) = Inr (None, False)
   \<and> auth_calls (snd (get_user_identity
            (example_world\<lparr>auth_service := GetCurrentUser (map_of [(''a b'', 7)])\<rparr>)
            [(''authorization'', ''Bearer a b'')])) = [''a'']"
  by (simp add: get_user_identity_def bearer_token_def startswith_def index_def
      get_current_user_def metadata_get_def spec_strip_prefix_def example_world_def
      GetCurrentUser_def)

section \<open>Properties of the request gate\<close>

lemma contains_iff: "contains p s = (\<exists>a b. s = a @ p @ b)"
proof (induction s)
  case Nil
  then show ?case by auto
next
  case (Cons c cs)
  show ?case
  proof
    assume "contains p (c # cs)"
    then consider "startswith (c # cs) p" | "contains p cs" by auto
    then show "\<exists>a b. c # cs = a @ p @ b"
    proof cases
      case 1
      then obtain r where "c # cs = p @ r" by (auto simp: startswith_iff)
      then have "c # cs = [] @ p @ r" by simp
      then show ?thesis by blast
    next
      case 2
      then obtain a b where "cs = a @ p @ b" using Cons.IH by auto
      then have "c # cs = (c # a) @ p @ b" by simp
      then show ?thesis by blast
    qed
  next
    assume "\<exists>a b. c # cs = a @ p @ b"
    then obtain a b where ab: "c # cs = a @ p @ b" by auto
    show "contains p (c # cs)"
    proof (cases a)
      case Nil
      then have "c # cs = p @ b" using ab by simp
      then have "startswith (c # cs) p" unfolding startswith_iff by blast
      then show ?thesis by simp
    next
      case (Cons x a')
      then have "cs = a' @ p @ b" using ab by simp
      then have "contains p cs" using Cons.IH by blast
      then show ?thesis by simp
    qed
  qed
qed

lemma last_split_append: "last (split (a @ c # seg) c) = last (split seg c)"
proof (induction a rule: length_induct)
  case (1 a)
  show ?case
  proof (cases "c \<in> set a")
    case False
    then show ?thesis by (simp add: split_append_sep split_nonempty)
  next
    case True
    then obtain a1 a2 where a: "a = a1 @ c # a2" "c \<notin> set a1"
      by (meson split_list_first)
    have "split (a @ c # seg) c = a1 # split (a2 @ c # seg) c"
      using split_append_sep [OF a(2), of "a2 @ c # seg"] a(1) by simp
    then have "last (split (a @ c # seg) c) = last (split (a2 @ c # seg) c)"
      by (simp add: split_nonempty)
    moreover have "length a2 < length a" using a(1) by simp
    ultimately show ?thesis using 1 by simp
  qed
qed

lemma last_split:
  "\<exists>pre. s = pre @ last (split s c) \<and> c \<notin> set (last (split s c))
         \<and> (pre = [] \<or> last pre = c)"
proof (cases "c \<in> set s")
  case False
  then show ?thesis by (simp add: split_notin)
next
  case True
  then obtain p seg where s: "s = p @ c # seg" "c \<notin> set seg"
    by (meson split_list_last)
  have "last (split s c) = seg"
    using s by (simp add: last_split_append split_notin)
  moreover have "s = (p @ [c]) @ seg" using s by simp
  ultimately show ?thesis using s(2) by (metis last_snoc)
qed

lemma index_last_nonempty: "xs \<noteq> [] \<Longrightarrow> index_last xs = Inr (last xs)"
  by (cases xs rule: rev_cases) (auto simp: index_last_def)

lemma is_read_op_eq:
  "is_read_op m = Inr (contains ''Get'' (last (split m CHR ''/'')))"
  by (simp add: is_read_op_def index_last_nonempty split_nonempty)

lemma is_read_op_segment:
  "\<exists>pre seg. m = pre @ seg \<and> CHR ''/'' \<notin> set seg \<and> (pre = [] \<or> last pre = CHR ''/'')
      \<and> is_read_op m = Inr (\<exists>a b. seg = a @ ''Get'' @ b)"
proof -
  obtain pre where "m = pre @ last (split m CHR ''/'')"
     "CHR ''/'' \<notin> set (last (split m CHR ''/''))" "pre = [] \<or> last pre = CHR ''/''"
    using last_split [of m "CHR ''/''"] by blast
  moreover have "is_read_op m = Inr (\<exists>a b. last (split m CHR ''/'') = a @ ''Get'' @ b)"
    unfolding is_read_op_eq contains_iff ..
  ultimately show ?thesis by blast
qed

lemma gate_token_eq:
  "gate_token meta =
     Inr (map_option
            (\<lambda>token. if startswith token ''Bearer ''
                     then takeWhile (\<lambda>x. x \<noteq> CHR '' '') (drop 7 token) else token)
            (metadata_get meta ''authorization''))"
proof (cases "metadata_get meta ''authorization''")
  case None
  then show ?thesis by (simp add: gate_token_def)
next
  case (Some token)
  show ?thesis
  proof (cases "startswith token ''Bearer ''")
    case True
    then obtain rest where t: "token = ''Bearer '' @ rest" by (auto simp: startswith_iff)
    have "drop 7 token = rest" unfolding t by simp
    moreover have "token \<noteq> []" using t by simp
    ultimately show ?thesis
      using True Some index_second [of rest] t by (simp add: gate_token_def)
  next
    case False
    then show ?thesis using Some by (simp add: gate_token_def)
  qed
qed

lemma intercept_authenticated:
  assumes "gate_token (invocation_metadata d) = Inr (Some t)" "t \<noteq> []"
    "auth_service w t = Inr uid"
  shows "intercept_service w k d = (Inr (k d), w\<lparr>auth_calls := auth_calls w @ [t]\<rparr>)"
  using assms
  by (simp add: intercept_service_def is_read_op_eq gate_authenticated_def
      get_current_user_def)

lemma intercept_anonymous:
  assumes "gate_token (invocation_metadata d) = Inr tok"
    "tok = None \<or> tok = Some [] \<or> (\<exists>t e. tok = Some t \<and> auth_service w t = Inl e)"
  shows "fst (intercept_service w k d) =
     (if contains ''Get'' (last (split (rpc_method d) CHR ''/'')) then Inr (k d)
      else Inr (abort_handler UNAUTHENTICATED ''Auth required''))"
  using assms
  by (auto simp: intercept_service_def is_read_op_eq gate_authenticated_def
      get_current_user_def)

lemma credential_cut:
  assumes "(\<exists>rest. c = ''Bearer '' @ rest \<and> t = takeWhile (\<lambda>x. x \<noteq> CHR '' '') rest)
           \<or> (\<not> (\<exists>rest. c = ''Bearer '' @ rest) \<and> t = c)"
  shows "(if startswith c ''Bearer '' then takeWhile (\<lambda>x. x \<noteq> CHR '' '') (drop 7 c) else c) = t"
  using assms by (auto simp: startswith_iff)

text \<open>
  C4, as amended. The gate takes a call for a read exactly when the last path segment of
  its method name (the text after the last \<^verbatim>\<open>/\<close>) contains \<^verbatim>\<open>Get\<close>. The token it
  asks the identity collaborator about is the credential itself or, when the credential
  starts with \<^verbatim>\<open>Bearer \<close>, the text between that prefix and the next space. A caller
  whose token is not empty and is resolved reaches the handler the continuation gives. A
  caller whose token is rejected, or who has no credential or an empty token, reaches
  that handler when the call is a read; when it is not, the gate returns the aborting
  handler and, whatever the continuation is, the call ends with \<^verbatim>\<open>UNAUTHENTICATED\<close>.
  The gate changes nothing but the record of the calls made to the collaborator: one
  call when there is a token, none otherwise.
\<close>

theorem intercept_service_gate:
  "(\<exists>pre seg. rpc_method d = pre @ seg \<and> CHR ''/'' \<notin> set seg
       \<and> (pre = [] \<or> last pre = CHR ''/'')
       \<and> is_read_op (rpc_method d) = Inr (\<exists>a b. seg = a @ ''Get'' @ b))
   \<and> (\<forall>c t uid. metadata_get (invocation_metadata d) ''authorization'' = Some c
          \<and> ((\<exists>rest. c = ''Bearer '' @ rest \<and> t = takeWhile (\<lambda>x. x \<noteq> CHR '' '') rest)
               \<or> (\<not> (\<exists>rest. c = ''Bearer '' @ rest) \<and> t = c))
          \<and> t \<noteq> [] \<and> auth_service w t = Inr uid \<longrightarrow>
        intercept_service w k d = (Inr (k d), w\<lparr>auth_calls := auth_calls w @ [t]\<rparr>)
        \<and> (\<forall>q. serve_call w k d q = k d (w\<lparr>auth_calls := auth_calls w @ [t]\<rparr>) q))
   \<and> (\<forall>c t e. metadata_get (invocation_metadata d) ''authorization'' = Some c
          \<and> ((\<exists>rest. c = ''Bearer '' @ rest \<and> t = takeWhile (\<lambda>x. x \<noteq> CHR '' '') rest)
               \<or> (\<not> (\<exists>rest. c = ''Bearer '' @ rest) \<and> t = c))
          \<and> t \<noteq> [] \<and> auth_service w t = Inl e \<longrightarrow>
        (is_read_op (rpc_method d) = Inr True \<longrightarrow>
           intercept_service w k d = (Inr (k d), w\<lparr>auth_calls := auth_calls w @ [t]\<rparr>)
           \<and> (\<forall>q. serve_call w k d q = k d (w\<lparr>auth_calls := auth_calls w @ [t]\<rparr>) q))
        \<and> (is_read_op (rpc_method d) = Inr False \<longrightarrow>
             intercept_service w k d
               = (Inr (abort_handler UNAUTHENTICATED ''Auth required''),
                  w\<lparr>auth_calls := auth_calls w @ [t]\<rparr>)
             \<and> (\<forall>q. serve_call w k d q
                      = (Inl (Abort UNAUTHENTICATED ''Auth required''),
                         w\<lparr>auth_calls := auth_calls w @ [t]\<rparr>))))
   \<and> (metadata_get (invocation_metadata d) ''authorization'' = None
        \<or> metadata_get (invocation_metadata d) ''authorization'' = Some []
        \<or> (\<exists>rest. metadata_get (invocation_metadata d) ''authorization''
                     = Some (''Bearer '' @ rest)
                   \<and> takeWhile (\<lambda>x. x \<noteq> CHR '' '') rest = []) \<longrightarrow>
        (is_read_op (rpc_method d) = Inr True \<longrightarrow>
           intercept_service w k d = (Inr (k d), w)
           \<and> (\<forall>q. serve_call w k d q = k d w q))
        \<and> (is_read_op (rpc_method d) = Inr False \<longrightarrow>
             intercept_service w k d
               = (Inr (abort_handler UNAUTHENTICATED ''Auth required''), w)
             \<and> (\<forall>q. serve_call w k d q
                      = (Inl (Abort UNAUTHENTICATED ''Auth required''), w))))"
proof (intro conjI allI impI)
  show "\<exists>pre seg. rpc_method d = pre @ seg \<and> CHR ''/'' \<notin> set seg
       \<and> (pre = [] \<or> last pre = CHR ''/'')
       \<and> is_read_op (rpc_method d) = Inr (\<exists>a b. seg = a @ ''Get'' @ b)"
    by (rule is_read_op_segment)
next
  fix c t uid
  assume a: "metadata_get (invocation_metadata d) ''authorization'' = Some c
          \<and> ((\<exists>rest. c = ''Bearer '' @ rest \<and> t = takeWhile (\<lambda>x. x \<noteq> CHR '' '') rest)
               \<or> (\<not> (\<exists>rest. c = ''Bearer '' @ rest) \<and> t = c))
          \<and> t \<noteq> [] \<and> auth_service w t = Inr uid"
  then have g: "intercept_service w k d
      = (case auth_service w t of
           Inr uid \<Rightarrow> Inr (k d)
         | Inl e \<Rightarrow>
             if contains ''Get'' (last (split (rpc_method d) CHR ''/'')) then Inr (k d)
             else Inr (abort_handler UNAUTHENTICATED ''Auth required''),
         w\<lparr>auth_calls := auth_calls w @ [t]\<rparr>)"
    using credential_cut [of c t]
    by (simp add: intercept_service_def is_read_op_eq gate_token_eq gate_authenticated_def
        get_current_user_def split: sum.splits)
  show i: "intercept_service w k d = (Inr (k d), w\<lparr>auth_calls := auth_calls w @ [t]\<rparr>)"
    using g a by simp
  fix q
  show "serve_call w k d q = k d (w\<lparr>auth_calls := auth_calls w @ [t]\<rparr>) q"
    using i by (simp add: serve_call_def)
next
  fix c t e
  assume a: "metadata_get (invocation_metadata d) ''authorization'' = Some c
          \<and> ((\<exists>rest. c = ''Bearer '' @ rest \<and> t = takeWhile (\<lambda>x. x \<noteq> CHR '' '') rest)
               \<or> (\<not> (\<exists>rest. c = ''Bearer '' @ rest) \<and> t = c))
          \<and> t \<noteq> [] \<and> auth_service w t = Inl e"
  then have g: "intercept_service w k d
      = (case auth_service w t of
           Inr uid \<Rightarrow> Inr (k d)
         | Inl e \<Rightarrow>
             if contains ''Get'' (last (split (rpc_method d) CHR ''/'')) then Inr (k d)
             else Inr (abort_handler UNAUTHENTICATED ''Auth required''),
         w\<lparr>auth_calls := auth_calls w @ [t]\<rparr>)"
    using credential_cut [of c t]
    by (simp add: intercept_service_def is_read_op_eq gate_token_eq gate_authenticated_def
        get_current_user_def split: sum.splits)
  {
    assume r: "is_read_op (rpc_method d) = Inr True"
    show i: "intercept_service w k d = (Inr (k d), w\<lparr>auth_calls := auth_calls w @ [t]\<rparr>)"
      using g a r by (simp add: is_read_op_eq)
    fix q
    show "serve_call w k d q = k d (w\<lparr>auth_calls := auth_calls w @ [t]\<rparr>) q"
      using i by (simp add: serve_call_def)
  }
  {
    assume r: "is_read_op (rpc_method d) = Inr False"
    show i: "intercept_service w k d
               = (Inr (abort_handler UNAUTHENTICATED ''Auth required''),
                  w\<lparr>auth_calls := auth_calls w @ [t]\<rparr>)"
      using g a r by (simp add: is_read_op_eq)
    fix q
    show "serve_call w k d q
            = (Inl (Abort UNAUTHENTICATED ''Auth required''),
               w\<lparr>auth_calls := auth_calls w @ [t]\<rparr>)"
      using i by (simp add: serve_call_def abort_handler_def)
  }
next
  assume a: "metadata_get (invocation_metadata d) ''authorization'' = None
        \<or> metadata_get (invocation_metadata d) ''authorization'' = Some []
        \<or> (\<exists>rest. metadata_get (invocation_metadata d) ''authorization''
                     = Some (''Bearer '' @ rest)
                   \<and> takeWhile (\<lambda>x. x \<noteq> CHR '' '') rest = [])"
  have g: "intercept_service w k d =
     (if contains ''Get'' (last (split (rpc_method d) CHR ''/'')) then Inr (k d)
      else Inr (abort_handler UNAUTHENTICATED ''Auth required''), w)"
    using a
    by (auto simp: intercept_service_def is_read_op_eq gate_token_eq gate_authenticated_def
        startswith_def)
  {
    assume r: "is_read_op (rpc_method d) = Inr True"
    show i: "intercept_service w k d = (Inr (k d), w)"
      using g r by (simp add: is_read_op_eq)
    fix q
    show "serve_call w k d q = k d w q"
      using i by (simp add: serve_call_def)
  }
  {
    assume r: "is_read_op (rpc_method d) = Inr False"
    show i: "intercept_service w k d
               = (Inr (abort_handler UNAUTHENTICATED ''Auth required''), w)"
      using g r by (simp add: is_read_op_eq)
    fix q
    show "serve_call w k d q = (Inl (Abort UNAUTHENTICATED ''Auth required''), w)"
      using i by (simp add: serve_call_def abort_handler_def)
  }
qed

theorem intercept_service_gate_witness:
  "serve_call example_world delete_directory_handler
          \<lparr>rpc_method = ''/CatalogService/DeleteDirectory'', invocation_metadata = []\<rparr>
          id_parent
     = (Inl (Abort UNAUTHENTICATED ''Auth required''), example_world)
   \<and> serve_call example_world delete_directory_handler
          \<lparr>rpc_method = ''/CatalogService/DeleteDirectory'',
           invocation_metadata = [(''authorization'', ''Bearer fake-token'')]\<rparr>
          id_parent
     = (Inl (Abort UNAUTHENTICATED ''Auth required''),
        example_world\<lparr>auth_calls := [''fake-token'']\<rparr>)
   \<and> serve_call example_world delete_directory_handler
          \<lparr>rpc_method = ''/CatalogService/DeleteDirectory'',
           invocation_metadata = meta_owner\<rparr>
          id_parent
     = DeleteDirectory (example_world\<lparr>auth_calls := [''sess-owner'']\<rparr>) meta_owner id_parent
   \<and> serve_call example_world get_directory_content_handler
          \<lparr>rpc_method = ''/CatalogService/GetDirectoryContent'', invocation_metadata = []\<rparr>
          id_parent
     = GetDirectoryContent example_world [] id_parent"
proof -
  let ?dd = "\<lparr>rpc_method = ''/CatalogService/DeleteDirectory'',
               invocation_metadata = []\<rparr>"
  let ?df = "\<lparr>rpc_method = ''/CatalogService/DeleteDirectory'',
               invocation_metadata = [(''authorization'', ''Bearer fake-token'')]\<rparr>"
  let ?do = "\<lparr>rpc_method = ''/CatalogService/DeleteDirectory'',
               invocation_metadata = meta_owner\<rparr>"
  let ?dg = "\<lparr>rpc_method = ''/CatalogService/GetDirectoryContent'',
               invocation_metadata = []\<rparr>"
  have m0: "metadata_get [] ''authorization'' = None"
    by (simp add: metadata_get_def)
  have m1: "metadata_get meta_owner ''authorization'' = Some (''Bearer '' @ ''sess-owner'')"
    by (simp add: metadata_get_def meta_owner_def)
  have m2: "metadata_get [(''authorization'', ''Bearer fake-token'')] ''authorization''
              = Some (''Bearer '' @ ''fake-token'')"
    by (simp add: metadata_get_def)
  have t1: "takeWhile (\<lambda>x. x \<noteq> CHR '' '') ''sess-owner'' = ''sess-owner''"
    "takeWhile (\<lambda>x. x \<noteq> CHR '' '') ''fake-token'' = ''fake-token''"
    by simp_all
  have a1: "auth_service example_world ''sess-owner'' = Inr 100"
    "auth_service example_world ''fake-token''
       = Inl (RpcError UNAUTHENTICATED ''Invalid Session'')"
    by (simp_all add: example_world_def GetCurrentUser_def test_sessions_def)
  have r1: "is_read_op ''/CatalogService/DeleteDirectory'' = Inr False"
    by (simp add: is_read_op_def index_last_def startswith_def)
  have r2: "is_read_op ''/CatalogService/GetDirectoryContent'' = Inr True"
    by (simp add: is_read_op_def index_last_def startswith_def)
  have c0: "auth_calls example_world = []" by (simp add: example_world_def)
  have "serve_call example_world delete_directory_handler ?dd id_parent
          = (Inl (Abort UNAUTHENTICATED ''Auth required''), example_world)"
    using intercept_service_gate [of ?dd example_world delete_directory_handler,
        THEN conjunct2, THEN conjunct2, THEN conjunct2] m0 r1
    by simp
  moreover have "serve_call example_world delete_directory_handler ?df id_parent
          = (Inl (Abort UNAUTHENTICATED ''Auth required''),
             example_world\<lparr>auth_calls := [''fake-token'']\<rparr>)"
    using intercept_service_gate [of ?df example_world delete_directory_handler,
        THEN conjunct2, THEN conjunct2, THEN conjunct1, rule_format,
        of "''Bearer '' @ ''fake-token''" "''fake-token''"
           "RpcError UNAUTHENTICATED ''Invalid Session''"]
      m2 t1 a1 r1 c0
    by simp
  moreover have "serve_call example_world delete_directory_handler ?do id_parent
          = DeleteDirectory (example_world\<lparr>auth_calls := [''sess-owner'']\<rparr>)
              meta_owner id_parent"
    using intercept_service_gate [of ?do example_world delete_directory_handler,
        THEN conjunct2, THEN conjunct1, rule_format,
        of "''Bearer '' @ ''sess-owner''" "''sess-owner''" 100]
      m1 t1 a1 c0
    by (simp add: delete_directory_handler_def)
  moreover have "serve_call example_world get_directory_content_handler ?dg id_parent
          = GetDirectoryContent example_world [] id_parent"
    using intercept_service_gate [of ?dg example_world get_directory_content_handler,
        THEN conjunct2, THEN conjunct2, THEN conjunct2] m0 r2
    by (simp add: get_directory_content_handler_def)
  ultimately show ?thesis by simp
qed

text \<open>
  C4 as stated passes every caller whose bearer token the collaborator resolves. For the
  credential \<^verbatim>\<open>Bearer a b\<close> the collaborator resolves the token \<^verbatim>\<open>a b\<close>, but the gate
  asks it about \<^verbatim>\<open>a\<close> and rejects the caller's \<^verbatim>\<open>DeleteDirectory\<close>.
\<close>

theorem intercept_service_prefix_counterexample:
  "auth_service (example_world\<lparr>auth_service := GetCurrentUser (map_of [(''a b'', 7)])\<rparr>)
       (spec_strip_prefix ''Bearer a b'') = Inr 7
   \<and> serve_call (example_world\<lparr>auth_service := GetCurrentUser (map_of [(''a b'', 7)])\<rparr>)
        delete_directory_handler
        \<lparr>rpc_method = ''/CatalogService/DeleteDirectory'',
         invocation_metadata = [(''authorization'', ''Bearer a b'')]\<rparr>
        id_parent
     = (Inl (Abort UNAUTHENTICATED ''Auth required''),
        example_world\<lparr>auth_service := GetCurrentUser (map_of [(''a b'', 7)]),
                        auth_calls := [''a'']\<rparr>)"
proof -
  let ?w = "example_world\<lparr>auth_service := GetCurrentUser (map_of [(''a b'', 7)])\<rparr>"
  let ?d = "\<lparr>rpc_method = ''/CatalogService/DeleteDirectory'',
         invocation_metadata = [(''authorization'', ''Bearer a b'')]\<rparr>"
  have s: "auth_service ?w (spec_strip_prefix ''Bearer a b'') = Inr 7"
    by (simp add: spec_strip_prefix_def startswith_def GetCurrentUser_def)
  have a: "auth_service ?w ''a'' = Inl (RpcError UNAUTHENTICATED ''Invalid Session'')"
    "auth_calls ?w = []"
    by (simp_all add: GetCurrentUser_def example_world_def)
  have r: "is_read_op ''/CatalogService/DeleteDirectory'' = Inr False"
    by (simp add: is_read_op_def index_last_def startswith_def)
  have g: "gate_token [(''authorization'', ''Bearer a b'')] = Inr (Some ''a'')"
    by (simp add: gate_token_def metadata_get_def startswith_def index_def)
  have "intercept_service ?w delete_directory_handler ?d
          = (Inr (abort_handler UNAUTHENTICATED ''Auth required''),
             ?w\<lparr>auth_calls := [''a'']\<rparr>)"
    using a r g
    by (simp add: intercept_service_def gate_authenticated_def get_current_user_def)
  then have "serve_call ?w delete_directory_handler ?d id_parent
          = (Inl (Abort UNAUTHENTICATED ''Auth required''), ?w\<lparr>auth_calls := [''a'']\<rparr>)"
    by (simp add: serve_call_def abort_handler_def)
  then show ?thesis using s by simp
qed

section \<open>Lemmas on the store and the handlers\<close>

lemma get_user_identity_frame:
  assumes "get_user_identity w meta = (r, w1)"
  shows "dirs_col w1 = dirs_col w \<and> files_col w1 = files_col w
         \<and> auth_service w1 = auth_service w \<and> file_service w1 = file_service w
         \<and> file_calls w1 = file_calls w \<and> log w1 = log w"
  using assms
  by (auto simp: get_user_identity_def get_current_user_def
      split: option.splits if_splits sum.splits prod.splits)

lemma find_one_Some: "find_one i col = Some d \<Longrightarrow> d \<in> set col \<and> doc_id d = i"
  unfolding find_one_def by (induction col) (auto split: if_splits)

lemma find_one_None: "find_one i col = None \<longleftrightarrow> (\<forall>d \<in> set col. doc_id d \<noteq> i)"
  unfolding find_one_def by (induction col) auto

lemma find_one_update_one:
  "(\<And>d. doc_id (f d) = doc_id d)
   \<Longrightarrow> find_one i (update_one i f col) = map_option f (find_one i col)"
  unfolding find_one_def by (induction col) auto

lemma update_one_const:
  "find_one i col = Some d \<Longrightarrow> update_one i f col = update_one i (\<lambda>_. f d) col"
  unfolding find_one_def by (induction col) (auto split: if_splits)

lemma update_one_same:
  "find_one i col = Some d \<Longrightarrow> update_one i (\<lambda>_. d) col = col"
  unfolding find_one_def by (induction col) (auto split: if_splits)

lemma delete_one_remove1:
  "find_one i col = Some d \<Longrightarrow> delete_one i col = remove1 d col"
proof (induction col)
  case Nil
  then show ?case by (simp add: find_one_def)
next
  case (Cons a col)
  have "doc_id d = i" using find_one_Some [OF Cons.prems] by simp
  then show ?case using Cons by (auto simp: find_one_def split: if_splits)
qed

lemma count_documents_pos: "(count_documents q col > 0) = (\<exists>d \<in> set col. q d)"
  by (auto simp: count_documents_def filter_empty_conv)

lemma DeleteDirectory_owner:
  assumes "get_user_identity w meta = (Inr (Some u, True), w1)"
    and "ObjectId rid = Inr i"
    and "find_one i (dirs_col w) = Some d"
    and "owner_id d = Some u"
  shows "DeleteDirectory w meta rid =
     (if \<exists>c \<in> set (dirs_col w). parent_id c = Some rid
      then (Inr \<lparr>success = False, message = ''Directory not empty''\<rparr>, w1)
      else (Inr \<lparr>success = True, message = ''Deleted''\<rparr>,
            w1\<lparr>files_col := filter (\<lambda>f. parent_directory_id f \<noteq> Some rid) (files_col w),
               dirs_col := remove1 d (dirs_col w)\<rparr>))"
proof -
  have fr: "dirs_col w1 = dirs_col w" "files_col w1 = files_col w"
    using get_user_identity_frame [OF assms(1)] by simp_all
  show ?thesis
    using assms fr
    by (simp add: DeleteDirectory_def count_documents_pos delete_many_def
        delete_one_remove1)
qed


lemma delete_files_single:
  "delete_files w [x] =
     (case file_service w x of
        Inr ack \<Rightarrow> w\<lparr>file_calls := file_calls w @ [x]\<rparr>
      | Inl e \<Rightarrow> w\<lparr>file_calls := file_calls w @ [x], log := log w @ [FileServiceError e]\<rparr>)"
  by simp



lemma doc_id_apply_set [simp]: "doc_id (apply_set u d) = doc_id d"
  by (simp add: apply_set_def)

lemma doc_id_dir_apply_set [simp]: "doc_id (dir_apply_set u d) = doc_id d"
  by (simp add: dir_apply_set_def)

lemma apply_set_no_fields: "\<not> has_fields u \<Longrightarrow> apply_set u d = d"
  by (simp add: has_fields_def apply_set_def)

lemma dir_apply_set_no_fields: "\<not> dir_has_fields u \<Longrightarrow> dir_apply_set u d = d"
  by (simp add: dir_has_fields_def dir_apply_set_def apply_set_no_fields)

lemma UpdateDirectory_writer:
  assumes "get_user_identity w meta = (Inr (Some u, True), w1)"
    and "ObjectId (ud_id r) = Inr i"
    and "find_one i (dirs_col w) = Some d"
    and "can_write d (Some u)"
  shows "UpdateDirectory w meta r =
     (Inr (directory_response (dir_apply_set (dir_update r d) d)),
      w1\<lparr>dirs_col := update_one i (\<lambda>_. dir_apply_set (dir_update r d) d) (dirs_col w)\<rparr>)"
proof -
  have fr: "dirs_col w1 = dirs_col w"
    using get_user_identity_frame [OF assms(1)] by simp
  let ?u = "dir_update r d"
  show ?thesis
  proof (cases "dir_has_fields ?u")
    case True
    have "find_one i (update_one i (dir_apply_set ?u) (dirs_col w))
            = Some (dir_apply_set ?u d)"
      using assms(3) by (simp add: find_one_update_one)
    moreover have "update_one i (dir_apply_set ?u) (dirs_col w)
            = update_one i (\<lambda>_. dir_apply_set ?u d) (dirs_col w)"
      using assms(3) by (rule update_one_const)
    ultimately show ?thesis
      using assms True fr by (simp add: UpdateDirectory_def Let_def)
  next
    case False
    then have e: "dir_apply_set ?u d = d" by (rule dir_apply_set_no_fields)
    have "w1\<lparr>dirs_col := dirs_col w\<rparr> = w1" using fr by simp
    then show ?thesis
      using assms False fr e
      by (simp add: UpdateDirectory_def Let_def update_one_same)
  qed
qed

lemma UpdateFile_writer:
  assumes "get_user_identity w meta = (Inr (Some u, True), w1)"
    and "ObjectId (uf_id r) = Inr i"
    and "find_one i (files_col w) = Some d"
    and "can_write d (Some u)"
  shows "UpdateFile w meta r =
     (Inr (file_response (apply_set (file_update r d) d)),
      w1\<lparr>files_col := update_one i (\<lambda>_. apply_set (file_update r d) d) (files_col w)\<rparr>)"
proof -
  have fr: "files_col w1 = files_col w"
    using get_user_identity_frame [OF assms(1)] by simp
  let ?u = "file_update r d"
  show ?thesis
  proof (cases "has_fields ?u")
    case True
    have "find_one i (update_one i (apply_set ?u) (files_col w))
            = Some (apply_set ?u d)"
      using assms(3) by (simp add: find_one_update_one)
    moreover have "update_one i (apply_set ?u) (files_col w)
            = update_one i (\<lambda>_. apply_set ?u d) (files_col w)"
      using assms(3) by (rule update_one_const)
    ultimately show ?thesis
      using assms True fr by (simp add: UpdateFile_def Let_def)
  next
    case False
    then have e: "apply_set ?u d = d" by (rule apply_set_no_fields)
    have "w1\<lparr>files_col := files_col w\<rparr> = w1" using fr by simp
    then show ?thesis
      using assms False fr e
      by (simp add: UpdateFile_def Let_def update_one_same)
  qed
qed

section \<open>The example world\<close>

lemma example_auth_owner:
  "get_user_identity example_world meta_owner
     = (Inr (Some 100, True), example_world\<lparr>auth_calls := [''sess-owner'']\<rparr>)"
  by (simp add: get_user_identity_def bearer_token_def startswith_def index_def
      get_current_user_def metadata_get_def meta_owner_def example_world_def
      GetCurrentUser_def test_sessions_def)

lemma example_auth_writer:
  "get_user_identity example_world meta_writer
     = (Inr (Some 200, True), example_world\<lparr>auth_calls := [''sess-writer'']\<rparr>)"
  by (simp add: get_user_identity_def bearer_token_def startswith_def index_def
      get_current_user_def metadata_get_def meta_writer_def example_world_def
      GetCurrentUser_def test_sessions_def)

lemma example_ids:
  "ObjectId id_parent = Inr id_parent" "ObjectId id_child = Inr id_child"
  "ObjectId id_withfiles = Inr id_withfiles" "ObjectId id_f1 = Inr id_f1"
  by (simp_all add: ObjectId_def id_parent_def id_child_def id_withfiles_def id_f1_def
      hex_lower_def is_space_def)

lemma example_find:
  "find_one id_parent (dirs_col example_world) = Some dir_parent"
  "find_one id_child (dirs_col example_world) = Some dir_child"
  "find_one id_withfiles (dirs_col example_world) = Some dir_withfiles"
  "find_one id_f1 (files_col example_world) = Some file_f1"
  by (simp_all add: find_one_def example_world_def dir_parent_def dir_child_def
      dir_withfiles_def file_f1_def id_parent_def id_child_def id_withfiles_def id_f1_def)

section \<open>Deleting a directory\<close>

text \<open>
  C1, as amended. For an authenticated caller who owns an existing directory D and names
  it by the identifier the service issued: when some directory has D as its
  \<^verbatim>\<open>parent_id\<close>, \<^verbatim>\<open>DeleteDirectory\<close> answers \<open>success = False\<close> with the message
  "Directory not empty" and leaves both collections as they were; when no directory
  does, it deletes every file whose \<^verbatim>\<open>parent_directory_id\<close> is D, removes D and
  answers \<open>success = True\<close>. Files inside D never block the deletion.
\<close>

theorem DeleteDirectory_emptiness:
  assumes "get_user_identity w meta = (Inr (Some u, True), w1)"
    and "ObjectId rid = Inr i" and "str_oid i = rid"
    and "find_one i (dirs_col w) = Some d"
    and "owner_id d = Some u"
  shows "((\<exists>c \<in> set (dirs_col w). parent_id c = Some (str_oid (doc_id d))) \<longrightarrow>
            DeleteDirectory w meta rid
              = (Inr \<lparr>success = False, message = ''Directory not empty''\<rparr>, w1)
            \<and> dirs_col w1 = dirs_col w \<and> files_col w1 = files_col w)
       \<and> (\<not> (\<exists>c \<in> set (dirs_col w). parent_id c = Some (str_oid (doc_id d))) \<longrightarrow>
            DeleteDirectory w meta rid
              = (Inr \<lparr>success = True, message = ''Deleted''\<rparr>,
                 w1\<lparr>files_col :=
                       filter (\<lambda>f. parent_directory_id f \<noteq> Some (str_oid (doc_id d)))
                         (files_col w),
                    dirs_col := remove1 d (dirs_col w)\<rparr>))"
proof -
  have "doc_id d = i" using find_one_Some [OF assms(4)] by simp
  then have r: "str_oid (doc_id d) = rid" using assms(3) by simp
  have fr: "dirs_col w1 = dirs_col w" "files_col w1 = files_col w"
    using get_user_identity_frame [OF assms(1)] by simp_all
  show ?thesis
    unfolding r using DeleteDirectory_owner [OF assms(1,2,4,5)] fr by simp
qed

theorem DeleteDirectory_emptiness_witness:
  "DeleteDirectory example_world meta_owner id_parent
     = (Inr \<lparr>success = False, message = ''Directory not empty''\<rparr>,
        example_world\<lparr>auth_calls := [''sess-owner'']\<rparr>)
   \<and> DeleteDirectory example_world meta_owner id_child
     = (Inr \<lparr>success = True, message = ''Deleted''\<rparr>,
        example_world\<lparr>auth_calls := [''sess-owner''], files_col := [file_f1],
                        dirs_col := [dir_parent, dir_withfiles]\<rparr>)"
proof -
  have o: "owner_id dir_parent = Some 100" "owner_id dir_child = Some 100"
    by (simp_all add: dir_parent_def dir_child_def)
  have s: "str_oid id_parent = id_parent" "str_oid id_child = id_child"
    by (simp_all add: str_oid_def)
  have c: "\<exists>c \<in> set (dirs_col example_world). parent_id c = Some (str_oid (doc_id dir_parent))"
    by (simp add: example_world_def dir_parent_def dir_child_def str_oid_def)
  have n: "\<not> (\<exists>c \<in> set (dirs_col example_world).
                 parent_id c = Some (str_oid (doc_id dir_child)))"
    by (simp add: example_world_def dir_parent_def dir_child_def dir_withfiles_def
        str_oid_def id_parent_def id_child_def)
  have f: "filter (\<lambda>f. parent_directory_id f \<noteq> Some (str_oid (doc_id dir_child)))
             (files_col example_world) = [file_f1]"
    by (simp add: example_world_def file_f1_def dir_child_def str_oid_def
        id_withfiles_def id_child_def)
  have d: "remove1 dir_child (dirs_col example_world) = [dir_parent, dir_withfiles]"
    by (simp add: example_world_def dir_parent_def dir_child_def id_parent_def id_child_def)
  show ?thesis
    using DeleteDirectory_emptiness [OF example_auth_owner example_ids(1) s(1)
            example_find(1) o(1)]
      DeleteDirectory_emptiness [OF example_auth_owner example_ids(2) s(2)
            example_find(2) o(2)]
      c n f d
    by simp
qed

text \<open>
  C1 as stated lets a file inside D block the deletion. In the example world the
  directory \<open>dir_withfiles\<close> holds the file \<open>file_f1\<close> and no directory; its owner's
  \<^verbatim>\<open>DeleteDirectory\<close> succeeds and removes both (the scenario of
  \<^verbatim>\<open>test_09_delete_directory_with_files\<close>).
\<close>

theorem DeleteDirectory_with_file_counterexample:
  "file_f1 \<in> set (files_col example_world)
   \<and> parent_directory_id file_f1 = Some (str_oid (doc_id dir_withfiles))
   \<and> find_one id_withfiles (dirs_col example_world) = Some dir_withfiles
   \<and> owner_id dir_withfiles = Some 100
   \<and> DeleteDirectory example_world meta_owner id_withfiles
     = (Inr \<lparr>success = True, message = ''Deleted''\<rparr>,
        example_world\<lparr>auth_calls := [''sess-owner''], files_col := [],
                        dirs_col := [dir_parent, dir_child]\<rparr>)"
proof -
  have o: "owner_id dir_withfiles = Some 100" by (simp add: dir_withfiles_def)
  have n: "\<not> (\<exists>c \<in> set (dirs_col example_world). parent_id c = Some id_withfiles)"
    by (simp add: example_world_def dir_parent_def dir_child_def dir_withfiles_def
        id_parent_def id_withfiles_def)
  have f: "filter (\<lambda>f. parent_directory_id f \<noteq> Some id_withfiles)
             (files_col example_world) = []"
    by (simp add: example_world_def file_f1_def)
  have d: "remove1 dir_withfiles (dirs_col example_world) = [dir_parent, dir_child]"
    by (simp add: example_world_def dir_parent_def dir_child_def dir_withfiles_def
        id_parent_def id_child_def id_withfiles_def)
  have m: "file_f1 \<in> set (files_col example_world)" by (simp add: example_world_def)
  have p: "parent_directory_id file_f1 = Some (str_oid (doc_id dir_withfiles))"
    by (simp add: file_f1_def dir_withfiles_def str_oid_def)
  show ?thesis
    using DeleteDirectory_owner [OF example_auth_owner example_ids(3) example_find(3) o]
      n f d m p o example_find(3)
    by simp
qed

section \<open>Who may delete\<close>




lemma delete_files_frame:
  "dirs_col (delete_files w xs) = dirs_col w \<and> files_col (delete_files w xs) = files_col w"
  by (induction xs arbitrary: w) (auto split: sum.splits)

section \<open>Deleting a file\<close>

text \<open>
  C9. When the authenticated owner deletes an existing file, \<^verbatim>\<open>DeleteFile\<close> removes the
  document and then makes one call to the file service with the file's
  \<^verbatim>\<open>external_file_id\<close>. Whether that call fails or not the answer is
  \<open>success = True\<close> and the document stays removed; a failure only adds an entry to
  the log.
\<close>

theorem DeleteFile_best_effort:
  assumes "get_user_identity w meta = (Inr (Some u, True), w1)"
    and "ObjectId rid = Inr i"
    and "find_one i (files_col w) = Some d"
    and "owner_id d = Some u"
  shows "DeleteFile w meta rid
           = (Inr \<lparr>success = True, message = ''Deleted''\<rparr>,
              delete_files (w1\<lparr>files_col := remove1 d (files_col w)\<rparr>) [external_file_id d])
       \<and> files_col (snd (DeleteFile w meta rid)) = remove1 d (files_col w)
       \<and> dirs_col (snd (DeleteFile w meta rid)) = dirs_col w
       \<and> file_calls (snd (DeleteFile w meta rid)) = file_calls w @ [external_file_id d]
       \<and> (\<forall>e. file_service w (external_file_id d) = Inl e \<longrightarrow>
             log (snd (DeleteFile w meta rid)) = log w @ [FileServiceError e])
       \<and> (\<forall>ack. file_service w (external_file_id d) = Inr ack \<longrightarrow>
             log (snd (DeleteFile w meta rid)) = log w)"
proof -
  have fr: "files_col w1 = files_col w" "file_service w1 = file_service w"
    "file_calls w1 = file_calls w" "log w1 = log w" "dirs_col w1 = dirs_col w"
    using get_user_identity_frame [OF assms(1)] by simp_all
  have r: "DeleteFile w meta rid
           = (Inr \<lparr>success = True, message = ''Deleted''\<rparr>,
              delete_files (w1\<lparr>files_col := remove1 d (files_col w)\<rparr>) [external_file_id d])"
    using assms fr by (simp add: DeleteFile_def delete_one_remove1)
  show ?thesis
    unfolding r using fr by (auto split: sum.splits)
qed

theorem DeleteFile_best_effort_witness:
  "fst (DeleteFile (example_world\<lparr>file_service := file_service_down\<rparr>) meta_owner id_f1)
     = Inr \<lparr>success = True, message = ''Deleted''\<rparr>
   \<and> files_col (snd (DeleteFile (example_world\<lparr>file_service := file_service_down\<rparr>)
                       meta_owner id_f1)) = []
   \<and> file_calls (snd (DeleteFile (example_world\<lparr>file_service := file_service_down\<rparr>)
                       meta_owner id_f1)) = [''e1'']
   \<and> log (snd (DeleteFile (example_world\<lparr>file_service := file_service_down\<rparr>)
                       meta_owner id_f1))
       = [FileServiceError (RpcError UNAVAILABLE ''failed to connect'')]"
proof -
  let ?w = "example_world\<lparr>file_service := file_service_down\<rparr>"
  have a: "get_user_identity ?w meta_owner
     = (Inr (Some 100, True), ?w\<lparr>auth_calls := [''sess-owner'']\<rparr>)"
    by (simp add: get_user_identity_def bearer_token_def startswith_def index_def
      get_current_user_def metadata_get_def meta_owner_def example_world_def
      GetCurrentUser_def test_sessions_def)
  have f: "find_one id_f1 (files_col ?w) = Some file_f1" using example_find(4) by simp
  have o: "owner_id file_f1 = Some 100" by (simp add: file_f1_def)
  have e: "external_file_id file_f1 = ''e1''" by (simp add: file_f1_def)
  have c: "files_col ?w = [file_f1]" "file_calls ?w = []" "log ?w = []"
    "file_service ?w ''e1'' = Inl (RpcError UNAVAILABLE ''failed to connect'')"
    by (simp_all add: example_world_def file_service_down_def)
  show ?thesis
    using DeleteFile_best_effort [OF a example_ids(4) f o] e c by simp
qed

section \<open>Partial updates\<close>

lemma dir_apply_set_update:
  "dir_apply_set (dir_update r d) d =
     d\<lparr>name := (if ud_name r \<noteq> [] then ud_name r else name d),
       is_public := (if Some (ud_is_public r) \<noteq> is_public d
                     then Some (ud_is_public r) else is_public d),
       allowed_readers := (if ud_allowed_readers r \<noteq> []
                           then Some (ud_allowed_readers r) else allowed_readers d),
       allowed_writers := (if ud_allowed_writers r \<noteq> []
                           then Some (ud_allowed_writers r) else allowed_writers d),
       parent_id := (if ud_parent_id r \<noteq> ''no_change''
                     then (if ud_parent_id r = [] then None else Some (ud_parent_id r))
                     else parent_id d)\<rparr>"
  by (simp add: dir_apply_set_def apply_set_def dir_update_def none_if_empty_def)

lemma apply_set_file_update:
  "apply_set (file_update r d) d =
     d\<lparr>name := (if uf_name r \<noteq> [] then uf_name r else name d),
       is_public := (if Some (uf_is_public r) \<noteq> is_public d
                     then Some (uf_is_public r) else is_public d),
       allowed_readers := (if uf_allowed_readers r \<noteq> []
                           then Some (uf_allowed_readers r) else allowed_readers d),
       allowed_writers := (if uf_allowed_writers r \<noteq> []
                           then Some (uf_allowed_writers r) else allowed_writers d)\<rparr>"
  by (simp add: apply_set_def file_update_def)

lemma find_one_update_one_const:
  "find_one i col = Some d \<Longrightarrow> doc_id d' = i
   \<Longrightarrow> find_one i (update_one i (\<lambda>_. d') col) = Some d'"
  unfolding find_one_def by (induction col) (auto split: if_splits)

lemma update_one_split:
  "find_one i col = Some d
   \<Longrightarrow> \<exists>pre post. col = pre @ d # post \<and> update_one i f col = pre @ f d # post"
proof (induction col)
  case Nil
  then show ?case by (simp add: find_one_def)
next
  case (Cons a col)
  show ?case
  proof (cases "doc_id a = i")
    case True
    then have "a = d" using Cons.prems by (simp add: find_one_def)
    then have "a # col = [] @ d # col \<and> update_one i f (a # col) = [] @ f d # col"
      using True by simp
    then show ?thesis by blast
  next
    case False
    then have "find_one i col = Some d" using Cons.prems by (simp add: find_one_def)
    then obtain pre post where "col = pre @ d # post"
      "update_one i f col = pre @ f d # post"
      using Cons.IH by blast
    then have "a # col = (a # pre) @ d # post
        \<and> update_one i f (a # col) = (a # pre) @ f d # post"
      using False by simp
    then show ?thesis by blast
  qed
qed

text \<open>
  C5. For an authenticated caller who may write an existing directory, \<^verbatim>\<open>UpdateDirectory\<close>
  stores the request's name when it is not empty, rewrites \<^verbatim>\<open>parent_id\<close> when the
  request's \<^verbatim>\<open>parent_id\<close> is not \<^verbatim>\<open>no_change\<close> (the empty string standing for the
  root), writes \<^verbatim>\<open>is_public\<close> when the request's value differs from the stored one,
  and replaces each ACL list when the request's list is not empty; every other field,
  and every field whose condition fails, keeps its stored value, and every other
  document of the collection stays as it was. The document found under the id
  afterwards is that document, and the answer carries its id, name, parent, public flag,
  owner and lists (an absent value as the message's default). \<^verbatim>\<open>UpdateFile\<close> does the
  same without the parent.
\<close>

theorem update_applies_fields_partially:
  assumes "get_user_identity w meta = (Inr (Some u, True), w1)"
  shows "(\<forall>i d. ObjectId (ud_id r) = Inr i \<and> find_one i (dirs_col w) = Some d
            \<and> can_write d (Some u) \<longrightarrow>
          (let d' = d\<lparr>name := (if ud_name r \<noteq> [] then ud_name r else name d),
                      is_public := (if Some (ud_is_public r) \<noteq> is_public d
                                    then Some (ud_is_public r) else is_public d),
                      allowed_readers :=
                        (if ud_allowed_readers r \<noteq> []
                         then Some (ud_allowed_readers r) else allowed_readers d),
                      allowed_writers :=
                        (if ud_allowed_writers r \<noteq> []
                         then Some (ud_allowed_writers r) else allowed_writers d),
                      parent_id :=
                        (if ud_parent_id r \<noteq> ''no_change''
                         then (if ud_parent_id r = [] then None else Some (ud_parent_id r))
                         else parent_id d)\<rparr>
           in UpdateDirectory w meta r
                = (Inr \<lparr>dr_id = doc_id d', dr_name = name d',
                    dr_parent_id = (case parent_id d' of None \<Rightarrow> [] | Some p \<Rightarrow> p),
                    dr_is_public = (case is_public d' of None \<Rightarrow> False | Some b \<Rightarrow> b),
                    dr_owner_id = (case owner_id d' of None \<Rightarrow> 0 | Some v \<Rightarrow> v),
                    dr_allowed_readers =
                      (case allowed_readers d' of None \<Rightarrow> [] | Some l \<Rightarrow> l),
                    dr_allowed_writers =
                      (case allowed_writers d' of None \<Rightarrow> [] | Some l \<Rightarrow> l)\<rparr>,
                   w1\<lparr>dirs_col := update_one i (\<lambda>_. d') (dirs_col w)\<rparr>)
              \<and> find_one i (update_one i (\<lambda>_. d') (dirs_col w)) = Some d'
              \<and> owner_id d' = owner_id d \<and> doc_id d' = doc_id d
              \<and> (\<exists>pre post. dirs_col w = pre @ d # post
                    \<and> update_one i (\<lambda>_. d') (dirs_col w) = pre @ d' # post)))
       \<and> (\<forall>i f. ObjectId (uf_id rf) = Inr i \<and> find_one i (files_col w) = Some f
            \<and> can_write f (Some u) \<longrightarrow>
          (let f' = f\<lparr>name := (if uf_name rf \<noteq> [] then uf_name rf else name f),
                      is_public := (if Some (uf_is_public rf) \<noteq> is_public f
                                    then Some (uf_is_public rf) else is_public f),
                      allowed_readers :=
                        (if uf_allowed_readers rf \<noteq> []
                         then Some (uf_allowed_readers rf) else allowed_readers f),
                      allowed_writers :=
                        (if uf_allowed_writers rf \<noteq> []
                         then Some (uf_allowed_writers rf) else allowed_writers f)\<rparr>
           in UpdateFile w meta rf
                = (Inr \<lparr>fr_id = doc_id f', fr_name = name f',
                    fr_external_file_id = external_file_id f',
                    fr_is_public = (case is_public f' of None \<Rightarrow> False | Some b \<Rightarrow> b),
                    fr_owner_id = (case owner_id f' of None \<Rightarrow> 0 | Some v \<Rightarrow> v),
                    fr_allowed_readers =
                      (case allowed_readers f' of None \<Rightarrow> [] | Some l \<Rightarrow> l),
                    fr_allowed_writers =
                      (case allowed_writers f' of None \<Rightarrow> [] | Some l \<Rightarrow> l)\<rparr>,
                   w1\<lparr>files_col := update_one i (\<lambda>_. f') (files_col w)\<rparr>)
              \<and> find_one i (update_one i (\<lambda>_. f') (files_col w)) = Some f'
              \<and> owner_id f' = owner_id f \<and> doc_id f' = doc_id f
              \<and> parent_directory_id f' = parent_directory_id f
              \<and> external_file_id f' = external_file_id f
              \<and> (\<exists>pre post. files_col w = pre @ f # post
                    \<and> update_one i (\<lambda>_. f') (files_col w) = pre @ f' # post)))"
proof (intro conjI allI impI)
  fix i d
  assume a: "ObjectId (ud_id r) = Inr i \<and> find_one i (dirs_col w) = Some d
            \<and> can_write d (Some u)"
  then have oi: "ObjectId (ud_id r) = Inr i" and f: "find_one i (dirs_col w) = Some d"
    and cw: "can_write d (Some u)" by simp_all
  let ?d = "dir_apply_set (dir_update r d) d"
  have di: "doc_id ?d = i"
    using find_one_Some [OF f] by simp
  have sp: "\<exists>pre post. dirs_col w = pre @ d # post
              \<and> update_one i (\<lambda>_. ?d) (dirs_col w) = pre @ ?d # post"
    using update_one_split [OF f, of "\<lambda>_. ?d"] by simp
  have st: "owner_id ?d = owner_id d" "doc_id ?d = doc_id d"
    by (simp_all add: dir_apply_set_update)
  have re: "UpdateDirectory w meta r
              = (Inr \<lparr>dr_id = doc_id ?d, dr_name = name ?d,
                    dr_parent_id = (case parent_id ?d of None \<Rightarrow> [] | Some p \<Rightarrow> p),
                    dr_is_public = (case is_public ?d of None \<Rightarrow> False | Some b \<Rightarrow> b),
                    dr_owner_id = (case owner_id ?d of None \<Rightarrow> 0 | Some v \<Rightarrow> v),
                    dr_allowed_readers =
                      (case allowed_readers ?d of None \<Rightarrow> [] | Some l \<Rightarrow> l),
                    dr_allowed_writers =
                      (case allowed_writers ?d of None \<Rightarrow> [] | Some l \<Rightarrow> l)\<rparr>,
                 w1\<lparr>dirs_col := update_one i (\<lambda>_. ?d) (dirs_col w)\<rparr>)"
    using UpdateDirectory_writer [OF assms oi f cw]
    by (simp add: directory_response_def get_or_def str_oid_def)
  show "let d' = d\<lparr>name := (if ud_name r \<noteq> [] then ud_name r else name d),
                      is_public := (if Some (ud_is_public r) \<noteq> is_public d
                                    then Some (ud_is_public r) else is_public d),
                      allowed_readers :=
                        (if ud_allowed_readers r \<noteq> []
                         then Some (ud_allowed_readers r) else allowed_readers d),
                      allowed_writers :=
                        (if ud_allowed_writers r \<noteq> []
                         then Some (ud_allowed_writers r) else allowed_writers d),
                      parent_id :=
                        (if ud_parent_id r \<noteq> ''no_change''
                         then (if ud_parent_id r = [] then None else Some (ud_parent_id r))
                         else parent_id d)\<rparr>
           in UpdateDirectory w meta r
                = (Inr \<lparr>dr_id = doc_id d', dr_name = name d',
                    dr_parent_id = (case parent_id d' of None \<Rightarrow> [] | Some p \<Rightarrow> p),
                    dr_is_public = (case is_public d' of None \<Rightarrow> False | Some b \<Rightarrow> b),
                    dr_owner_id = (case owner_id d' of None \<Rightarrow> 0 | Some v \<Rightarrow> v),
                    dr_allowed_readers =
                      (case allowed_readers d' of None \<Rightarrow> [] | Some l \<Rightarrow> l),
                    dr_allowed_writers =
                      (case allowed_writers d' of None \<Rightarrow> [] | Some l \<Rightarrow> l)\<rparr>,
                   w1\<lparr>dirs_col := update_one i (\<lambda>_. d') (dirs_col w)\<rparr>)
              \<and> find_one i (update_one i (\<lambda>_. d') (dirs_col w)) = Some d'
              \<and> owner_id d' = owner_id d \<and> doc_id d' = doc_id d
              \<and> (\<exists>pre post. dirs_col w = pre @ d # post
                    \<and> update_one i (\<lambda>_. d') (dirs_col w) = pre @ d' # post)"
    unfolding Let_def dir_apply_set_update [symmetric]
    using re find_one_update_one_const [OF f di] sp st
    by simp
next
  fix i f
  assume a: "ObjectId (uf_id rf) = Inr i \<and> find_one i (files_col w) = Some f
            \<and> can_write f (Some u)"
  then have oi: "ObjectId (uf_id rf) = Inr i" and f: "find_one i (files_col w) = Some f"
    and cw: "can_write f (Some u)" by simp_all
  let ?f = "apply_set (file_update rf f) f"
  have di: "doc_id ?f = i"
    using find_one_Some [OF f] by simp
  have sp: "\<exists>pre post. files_col w = pre @ f # post
              \<and> update_one i (\<lambda>_. ?f) (files_col w) = pre @ ?f # post"
    using update_one_split [OF f, of "\<lambda>_. ?f"] by simp
  have st: "owner_id ?f = owner_id f" "doc_id ?f = doc_id f"
    "parent_directory_id ?f = parent_directory_id f"
    "external_file_id ?f = external_file_id f"
    by (simp_all add: apply_set_file_update)
  have re: "UpdateFile w meta rf
              = (Inr \<lparr>fr_id = doc_id ?f, fr_name = name ?f,
                    fr_external_file_id = external_file_id ?f,
                    fr_is_public = (case is_public ?f of None \<Rightarrow> False | Some b \<Rightarrow> b),
                    fr_owner_id = (case owner_id ?f of None \<Rightarrow> 0 | Some v \<Rightarrow> v),
                    fr_allowed_readers =
                      (case allowed_readers ?f of None \<Rightarrow> [] | Some l \<Rightarrow> l),
                    fr_allowed_writers =
                      (case allowed_writers ?f of None \<Rightarrow> [] | Some l \<Rightarrow> l)\<rparr>,
                 w1\<lparr>files_col := update_one i (\<lambda>_. ?f) (files_col w)\<rparr>)"
    using UpdateFile_writer [OF assms oi f cw]
    by (simp add: file_response_def get_or_def str_oid_def)
  show "let f' = f\<lparr>name := (if uf_name rf \<noteq> [] then uf_name rf else name f),
                      is_public := (if Some (uf_is_public rf) \<noteq> is_public f
                                    then Some (uf_is_public rf) else is_public f),
                      allowed_readers :=
                        (if uf_allowed_readers rf \<noteq> []
                         then Some (uf_allowed_readers rf) else allowed_readers f),
                      allowed_writers :=
                        (if uf_allowed_writers rf \<noteq> []
                         then Some (uf_allowed_writers rf) else allowed_writers f)\<rparr>
           in UpdateFile w meta rf
                = (Inr \<lparr>fr_id = doc_id f', fr_name = name f',
                    fr_external_file_id = external_file_id f',
                    fr_is_public = (case is_public f' of None \<Rightarrow> False | Some b \<Rightarrow> b),
                    fr_owner_id = (case owner_id f' of None \<Rightarrow> 0 | Some v \<Rightarrow> v),
                    fr_allowed_readers =
                      (case allowed_readers f' of None \<Rightarrow> [] | Some l \<Rightarrow> l),
                    fr_allowed_writers =
                      (case allowed_writers f' of None \<Rightarrow> [] | Some l \<Rightarrow> l)\<rparr>,
                   w1\<lparr>files_col := update_one i (\<lambda>_. f') (files_col w)\<rparr>)
              \<and> find_one i (update_one i (\<lambda>_. f') (files_col w)) = Some f'
              \<and> owner_id f' = owner_id f \<and> doc_id f' = doc_id f
              \<and> parent_directory_id f' = parent_directory_id f
              \<and> external_file_id f' = external_file_id f
              \<and> (\<exists>pre post. files_col w = pre @ f # post
                    \<and> update_one i (\<lambda>_. f') (files_col w) = pre @ f' # post)"
    unfolding Let_def apply_set_file_update [symmetric]
    using re find_one_update_one_const [OF f di] sp st
    by simp
qed

theorem update_applies_fields_partially_witness:
  "UpdateDirectory example_world meta_writer
      \<lparr>ud_id = id_parent, ud_name = ''Renamed'', ud_parent_id = ''no_change'',
       ud_is_public = True, ud_allowed_readers = [], ud_allowed_writers = []\<rparr>
     = (Inr \<lparr>dr_id = ''65a1f0c2b3d4e5f601020301'', dr_name = ''Renamed'',
             dr_parent_id = [], dr_is_public = True, dr_owner_id = 100,
             dr_allowed_readers = [], dr_allowed_writers = [200]\<rparr>,
        example_world\<lparr>auth_calls := [''sess-writer''],
          dirs_col := [dir_parent\<lparr>name := ''Renamed''\<rparr>, dir_child, dir_withfiles]\<rparr>)
   \<and> UpdateFile example_world meta_writer
      \<lparr>uf_id = id_f1, uf_name = [], uf_is_public = False,
       uf_allowed_readers = [300], uf_allowed_writers = []\<rparr>
     = (Inr \<lparr>fr_id = ''65a1f0c2b3d4e5f601020304'', fr_name = ''f1'',
             fr_external_file_id = ''e1'', fr_is_public = False, fr_owner_id = 100,
             fr_allowed_readers = [300], fr_allowed_writers = [200]\<rparr>,
        example_world\<lparr>auth_calls := [''sess-writer''],
          files_col := [file_f1\<lparr>allowed_readers := Some [300]\<rparr>]\<rparr>)"
proof -
  let ?r = "\<lparr>ud_id = id_parent, ud_name = ''Renamed'', ud_parent_id = ''no_change'',
       ud_is_public = True, ud_allowed_readers = [], ud_allowed_writers = []\<rparr>"
  let ?rf = "\<lparr>uf_id = id_f1, uf_name = [], uf_is_public = False,
       uf_allowed_readers = [300], uf_allowed_writers = []\<rparr>"
  have cw: "can_write dir_parent (Some 200)" "can_write file_f1 (Some 200)"
    by (simp_all add: can_write_def dir_parent_def file_f1_def get_or_def)
  have d: "dir_parent\<lparr>name := ''Renamed'', is_public := Some True,
             allowed_readers := Some [], allowed_writers := Some [200], parent_id := None\<rparr>
           = dir_parent\<lparr>name := ''Renamed''\<rparr>"
    by (simp add: dir_parent_def)
  have f: "file_f1\<lparr>name := ''f1'', is_public := Some False,
             allowed_readers := Some [300], allowed_writers := Some [200]\<rparr>
           = file_f1\<lparr>allowed_readers := Some [300]\<rparr>"
    by (simp add: file_f1_def)
  have v: "name dir_parent = ''Parent''" "is_public dir_parent = Some True"
     "allowed_readers dir_parent = Some []" "allowed_writers dir_parent = Some [200]"
     "parent_id dir_parent = None" "owner_id dir_parent = Some 100"
     "doc_id dir_parent = ''65a1f0c2b3d4e5f601020301''"
     "name file_f1 = ''f1''" "is_public file_f1 = Some False"
     "allowed_readers file_f1 = Some []" "allowed_writers file_f1 = Some [200]"
     "owner_id file_f1 = Some 100" "external_file_id file_f1 = ''e1''"
     "doc_id file_f1 = ''65a1f0c2b3d4e5f601020304''"
    by (simp_all add: dir_parent_def file_f1_def id_parent_def id_f1_def)
  have c: "update_one id_parent (\<lambda>_. dir_parent\<lparr>name := ''Renamed''\<rparr>)
              (dirs_col example_world)
            = [dir_parent\<lparr>name := ''Renamed''\<rparr>, dir_child, dir_withfiles]"
     "update_one id_f1 (\<lambda>_. file_f1\<lparr>allowed_readers := Some [300]\<rparr>)
              (files_col example_world)
            = [file_f1\<lparr>allowed_readers := Some [300]\<rparr>]"
    by (simp_all add: example_world_def dir_parent_def file_f1_def)
  have ri: "ObjectId (ud_id ?r) = Inr id_parent" "ObjectId (uf_id ?rf) = Inr id_f1"
    using example_ids by simp_all
  have "UpdateDirectory example_world meta_writer ?r
     = (Inr \<lparr>dr_id = ''65a1f0c2b3d4e5f601020301'', dr_name = ''Renamed'',
             dr_parent_id = [], dr_is_public = True, dr_owner_id = 100,
             dr_allowed_readers = [], dr_allowed_writers = [200]\<rparr>,
        example_world\<lparr>auth_calls := [''sess-writer''],
          dirs_col := [dir_parent\<lparr>name := ''Renamed''\<rparr>, dir_child, dir_withfiles]\<rparr>)"
    using update_applies_fields_partially [OF example_auth_writer, of ?r ?rf,
        THEN conjunct1, rule_format, of id_parent dir_parent]
      ri(1) example_find(1) cw(1)
    by (simp add: Let_def v d c)
  moreover have "UpdateFile example_world meta_writer ?rf
     = (Inr \<lparr>fr_id = ''65a1f0c2b3d4e5f601020304'', fr_name = ''f1'',
             fr_external_file_id = ''e1'', fr_is_public = False, fr_owner_id = 100,
             fr_allowed_readers = [300], fr_allowed_writers = [200]\<rparr>,
        example_world\<lparr>auth_calls := [''sess-writer''],
          files_col := [file_f1\<lparr>allowed_readers := Some [300]\<rparr>]\<rparr>)"
    using update_applies_fields_partially [OF example_auth_writer, of ?r ?rf,
        THEN conjunct2, rule_format, of id_f1 file_f1]
      ri(2) example_find(4) cw(2)
    by (simp add: Let_def v f c)
  ultimately show ?thesis by simp
qed

section \<open>The public flag under updates\<close>








section \<open>Listing a directory\<close>

lemma example_auth_anonymous:
  "get_user_identity example_world [] = (Inr (None, False), example_world)"
  by (simp add: get_user_identity_def metadata_get_def)

lemma ObjectId_nonempty: "ObjectId s = Inr i \<Longrightarrow> s \<noteq> []"
  by (auto simp: ObjectId_def)

text \<open>
  C7, as amended. Whoever the caller is, anonymous included: with no \<^verbatim>\<open>directory_id\<close>
  \<^verbatim>\<open>GetDirectoryContent\<close> lists the root; with a \<^verbatim>\<open>directory_id\<close> that is a well-formed
  object identifier it fails with \<^verbatim>\<open>NOT_FOUND\<close> when no directory has that id and fails
  with \<^verbatim>\<open>PERMISSION_DENIED\<close> (changing neither collection) when the caller cannot read
  that directory; for a directory the caller can read, named by the identifier the
  service issued for it, it lists that directory. A listing is exactly the directories
  and files whose stored parent is the listed directory (no parent for the root) and
  that the caller can read, each with its id, name, public flag, owner and lists; the
  others are left out without error.
\<close>

theorem GetDirectoryContent_filters:
  assumes "get_user_identity w meta = (Inr (caller, a), w1)"
  shows "let DR = (\<lambda>d :: dir_doc. \<lparr>dr_id = doc_id d, dr_name = name d,
                    dr_parent_id = (case parent_id d of None \<Rightarrow> [] | Some p \<Rightarrow> p),
                    dr_is_public = (case is_public d of None \<Rightarrow> False | Some b \<Rightarrow> b),
                    dr_owner_id = (case owner_id d of None \<Rightarrow> 0 | Some v \<Rightarrow> v),
                    dr_allowed_readers =
                      (case allowed_readers d of None \<Rightarrow> [] | Some l \<Rightarrow> l),
                    dr_allowed_writers =
                      (case allowed_writers d of None \<Rightarrow> [] | Some l \<Rightarrow> l)\<rparr>);
            FR = (\<lambda>f :: file_doc. \<lparr>fr_id = doc_id f, fr_name = name f,
                    fr_external_file_id = external_file_id f,
                    fr_is_public = (case is_public f of None \<Rightarrow> False | Some b \<Rightarrow> b),
                    fr_owner_id = (case owner_id f of None \<Rightarrow> 0 | Some v \<Rightarrow> v),
                    fr_allowed_readers =
                      (case allowed_readers f of None \<Rightarrow> [] | Some l \<Rightarrow> l),
                    fr_allowed_writers =
                      (case allowed_writers f of None \<Rightarrow> [] | Some l \<Rightarrow> l)\<rparr>)
        in GetDirectoryContent w meta []
             = (Inr \<lparr>directories =
                       map DR (filter (\<lambda>d. can_read d caller)
                                 (filter (\<lambda>d. parent_id d = None) (dirs_col w))),
                     files =
                       map FR (filter (\<lambda>f. can_read f caller)
                                 (filter (\<lambda>f. parent_directory_id f = None)
                                    (files_col w)))\<rparr>,
                w1)
         \<and> (\<forall>i. ObjectId did = Inr i \<and> find_one i (dirs_col w) = None \<longrightarrow>
               GetDirectoryContent w meta did
                 = (Inl (Abort NOT_FOUND ''Directory not found''), w1))
         \<and> (\<forall>i t. ObjectId did = Inr i \<and> find_one i (dirs_col w) = Some t
                 \<and> \<not> can_read t caller \<longrightarrow>
               GetDirectoryContent w meta did
                 = (Inl (Abort PERMISSION_DENIED
                           ''You do not have permission to view this directory''),
                    w1\<lparr>log := log w1 @ [AccessDenied caller did]\<rparr>)
               \<and> dirs_col (snd (GetDirectoryContent w meta did)) = dirs_col w
               \<and> files_col (snd (GetDirectoryContent w meta did)) = files_col w)
         \<and> (\<forall>i t. ObjectId did = Inr i \<and> str_oid i = did
                 \<and> find_one i (dirs_col w) = Some t \<and> can_read t caller \<longrightarrow>
               GetDirectoryContent w meta did
                 = (Inr \<lparr>directories =
                           map DR (filter (\<lambda>d. can_read d caller)
                                     (filter (\<lambda>d. parent_id d = Some (str_oid (doc_id t)))
                                        (dirs_col w))),
                         files =
                           map FR (filter (\<lambda>f. can_read f caller)
                                     (filter (\<lambda>f. parent_directory_id f
                                                    = Some (str_oid (doc_id t)))
                                        (files_col w)))\<rparr>,
                    w1))"
proof -
  have fr: "dirs_col w1 = dirs_col w" "files_col w1 = files_col w"
    using get_user_identity_frame [OF assms] by simp_all
  have root: "GetDirectoryContent w meta []
      = (Inr \<lparr>directories =
                map directory_response
                  (filter (\<lambda>d. can_read d caller)
                     (filter (\<lambda>d. parent_id d = None) (dirs_col w))),
              files =
                map file_response
                  (filter (\<lambda>f. can_read f caller)
                     (filter (\<lambda>f. parent_directory_id f = None) (files_col w)))\<rparr>,
         w1)"
    using assms fr
    by (simp add: GetDirectoryContent_def Let_def none_if_empty_def find_docs_def)
  have nf: "\<And>i. ObjectId did = Inr i \<Longrightarrow> find_one i (dirs_col w) = None \<Longrightarrow>
      GetDirectoryContent w meta did = (Inl (Abort NOT_FOUND ''Directory not found''), w1)"
    using assms fr ObjectId_nonempty [of did]
    by (simp add: GetDirectoryContent_def Let_def none_if_empty_def)
  have pd: "\<And>i t. ObjectId did = Inr i \<Longrightarrow> find_one i (dirs_col w) = Some t \<Longrightarrow>
      \<not> can_read t caller \<Longrightarrow>
      GetDirectoryContent w meta did
        = (Inl (Abort PERMISSION_DENIED
                  ''You do not have permission to view this directory''),
           w1\<lparr>log := log w1 @ [AccessDenied caller did]\<rparr>)"
    using assms fr ObjectId_nonempty [of did]
    by (simp add: GetDirectoryContent_def Let_def none_if_empty_def)
  have ls: "\<And>i t. ObjectId did = Inr i \<Longrightarrow> str_oid i = did \<Longrightarrow>
      find_one i (dirs_col w) = Some t \<Longrightarrow> can_read t caller \<Longrightarrow>
      GetDirectoryContent w meta did
        = (Inr \<lparr>directories =
                  map directory_response
                    (filter (\<lambda>d. can_read d caller)
                       (filter (\<lambda>d. parent_id d = Some (str_oid (doc_id t))) (dirs_col w))),
                files =
                  map file_response
                    (filter (\<lambda>f. can_read f caller)
                       (filter (\<lambda>f. parent_directory_id f = Some (str_oid (doc_id t)))
                          (files_col w)))\<rparr>,
           w1)"
  proof -
    fix i t
    assume h: "ObjectId did = Inr i" "str_oid i = did"
      "find_one i (dirs_col w) = Some t" "can_read t caller"
    have "doc_id t = i" using find_one_Some [OF h(3)] by simp
    then have e: "str_oid (doc_id t) = did" using h(2) by simp
    show "GetDirectoryContent w meta did
        = (Inr \<lparr>directories =
                  map directory_response
                    (filter (\<lambda>d. can_read d caller)
                       (filter (\<lambda>d. parent_id d = Some (str_oid (doc_id t))) (dirs_col w))),
                files =
                  map file_response
                    (filter (\<lambda>f. can_read f caller)
                       (filter (\<lambda>f. parent_directory_id f = Some (str_oid (doc_id t)))
                          (files_col w)))\<rparr>,
           w1)"
      unfolding e using assms fr h ObjectId_nonempty [of did]
      by (simp add: GetDirectoryContent_def Let_def none_if_empty_def find_docs_def)
  qed
  have dr: "directory_response = (\<lambda>d. \<lparr>dr_id = doc_id d, dr_name = name d,
                    dr_parent_id = (case parent_id d of None \<Rightarrow> [] | Some p \<Rightarrow> p),
                    dr_is_public = (case is_public d of None \<Rightarrow> False | Some b \<Rightarrow> b),
                    dr_owner_id = (case owner_id d of None \<Rightarrow> 0 | Some v \<Rightarrow> v),
                    dr_allowed_readers =
                      (case allowed_readers d of None \<Rightarrow> [] | Some l \<Rightarrow> l),
                    dr_allowed_writers =
                      (case allowed_writers d of None \<Rightarrow> [] | Some l \<Rightarrow> l)\<rparr>)"
    by (rule ext) (simp add: directory_response_def get_or_def str_oid_def)
  have fr': "file_response = (\<lambda>f. \<lparr>fr_id = doc_id f, fr_name = name f,
                    fr_external_file_id = external_file_id f,
                    fr_is_public = (case is_public f of None \<Rightarrow> False | Some b \<Rightarrow> b),
                    fr_owner_id = (case owner_id f of None \<Rightarrow> 0 | Some v \<Rightarrow> v),
                    fr_allowed_readers =
                      (case allowed_readers f of None \<Rightarrow> [] | Some l \<Rightarrow> l),
                    fr_allowed_writers =
                      (case allowed_writers f of None \<Rightarrow> [] | Some l \<Rightarrow> l)\<rparr>)"
    by (rule ext) (simp add: file_response_def get_or_def str_oid_def)
  show ?thesis
    unfolding Let_def dr [symmetric] fr' [symmetric]
    using root nf pd ls fr by simp
qed

theorem GetDirectoryContent_filters_witness:
  "GetDirectoryContent example_world [] id_parent
     = (Inr \<lparr>directories = [], files = []\<rparr>, example_world)
   \<and> GetDirectoryContent example_world meta_owner id_parent
     = (Inr \<lparr>directories =
               [\<lparr>dr_id = ''65a1f0c2b3d4e5f601020302'', dr_name = ''Child'',
                 dr_parent_id = ''65a1f0c2b3d4e5f601020301'', dr_is_public = False,
                 dr_owner_id = 100, dr_allowed_readers = [300],
                 dr_allowed_writers = []\<rparr>],
             files = []\<rparr>,
        example_world\<lparr>auth_calls := [''sess-owner'']\<rparr>)
   \<and> GetDirectoryContent example_world meta_owner id_withfiles
     = (Inr \<lparr>directories = [],
             files =
               [\<lparr>fr_id = ''65a1f0c2b3d4e5f601020304'', fr_name = ''f1'',
                 fr_external_file_id = ''e1'', fr_is_public = False, fr_owner_id = 100,
                 fr_allowed_readers = [], fr_allowed_writers = [200]\<rparr>]\<rparr>,
        example_world\<lparr>auth_calls := [''sess-owner'']\<rparr>)
   \<and> GetDirectoryContent example_world [] []
     = (Inr \<lparr>directories =
               [\<lparr>dr_id = ''65a1f0c2b3d4e5f601020301'', dr_name = ''Parent'',
                 dr_parent_id = [], dr_is_public = True, dr_owner_id = 100,
                 dr_allowed_readers = [], dr_allowed_writers = [200]\<rparr>],
             files = []\<rparr>,
        example_world)
   \<and> fst (GetDirectoryContent example_world [] id_withfiles)
     = Inl (Abort PERMISSION_DENIED ''You do not have permission to view this directory'')
   \<and> GetDirectoryContent example_world [] ''65a1f0c2b3d4e5f6010203ff''
     = (Inl (Abort NOT_FOUND ''Directory not found''), example_world)"
proof -
  have cr: "can_read dir_parent None" "can_read dir_parent (Some 100)"
    "\<not> can_read dir_withfiles None" "can_read dir_withfiles (Some 100)"
    by (simp_all add: can_read_def dir_parent_def dir_withfiles_def get_or_def)
  have s: "str_oid id_parent = id_parent" "str_oid id_withfiles = id_withfiles"
    "str_oid (doc_id dir_parent) = id_parent"
    "str_oid (doc_id dir_withfiles) = id_withfiles"
    by (simp_all add: str_oid_def dir_parent_def dir_withfiles_def)
  have l1: "filter (\<lambda>d. can_read d None)
              (filter (\<lambda>d. parent_id d = Some id_parent) (dirs_col example_world)) = []"
    "filter (\<lambda>d. can_read d (Some 100))
              (filter (\<lambda>d. parent_id d = Some id_parent) (dirs_col example_world))
       = [dir_child]"
    "filter (\<lambda>d. can_read d (Some 100))
              (filter (\<lambda>d. parent_id d = Some id_withfiles) (dirs_col example_world))
       = []"
    "filter (\<lambda>d. can_read d None)
              (filter (\<lambda>d. parent_id d = None) (dirs_col example_world)) = [dir_parent]"
    by (simp_all add: example_world_def dir_parent_def dir_child_def dir_withfiles_def
        can_read_def get_or_def id_parent_def id_withfiles_def)
  have l2: "filter (\<lambda>f. can_read f None)
       (filter (\<lambda>f. parent_directory_id f = Some id_parent) (files_col example_world))
       = []"
    "filter (\<lambda>f. can_read f (Some 100))
       (filter (\<lambda>f. parent_directory_id f = Some id_parent) (files_col example_world))
       = []"
    "filter (\<lambda>f. can_read f None)
       (filter (\<lambda>f. parent_directory_id f = None) (files_col example_world)) = []"
    "filter (\<lambda>f. can_read f (Some 100))
       (filter (\<lambda>f. parent_directory_id f = Some id_withfiles) (files_col example_world))
       = [file_f1]"
    by (simp_all add: example_world_def file_f1_def id_parent_def id_withfiles_def
        can_read_def get_or_def)
  have v: "doc_id dir_child = ''65a1f0c2b3d4e5f601020302''" "name dir_child = ''Child''"
    "parent_id dir_child = Some ''65a1f0c2b3d4e5f601020301''"
    "is_public dir_child = Some False" "owner_id dir_child = Some 100"
    "allowed_readers dir_child = Some [300]" "allowed_writers dir_child = Some []"
    "doc_id dir_parent = ''65a1f0c2b3d4e5f601020301''" "name dir_parent = ''Parent''"
    "parent_id dir_parent = None"
    "is_public dir_parent = Some True" "owner_id dir_parent = Some 100"
    "allowed_readers dir_parent = Some []" "allowed_writers dir_parent = Some [200]"
    "doc_id file_f1 = ''65a1f0c2b3d4e5f601020304''" "name file_f1 = ''f1''"
    "external_file_id file_f1 = ''e1''"
    "is_public file_f1 = Some False" "owner_id file_f1 = Some 100"
    "allowed_readers file_f1 = Some []" "allowed_writers file_f1 = Some [200]"
    by (simp_all add: dir_child_def dir_parent_def file_f1_def id_child_def id_parent_def
        id_f1_def)
  have o: "ObjectId ''65a1f0c2b3d4e5f6010203ff'' = Inr ''65a1f0c2b3d4e5f6010203ff''"
    by (simp add: ObjectId_def hex_lower_def is_space_def)
  have nf: "find_one ''65a1f0c2b3d4e5f6010203ff'' (dirs_col example_world) = None"
    by (simp add: find_one_def example_world_def dir_parent_def dir_child_def
        dir_withfiles_def id_parent_def id_child_def id_withfiles_def)
  have "GetDirectoryContent example_world [] id_parent
     = (Inr \<lparr>directories = [], files = []\<rparr>, example_world)"
    using GetDirectoryContent_filters [OF example_auth_anonymous, of id_parent]
      example_ids(1) example_find(1) cr s l1 l2
    by (simp add: Let_def)
  moreover have "GetDirectoryContent example_world meta_owner id_parent
     = (Inr \<lparr>directories =
               [\<lparr>dr_id = ''65a1f0c2b3d4e5f601020302'', dr_name = ''Child'',
                 dr_parent_id = ''65a1f0c2b3d4e5f601020301'', dr_is_public = False,
                 dr_owner_id = 100, dr_allowed_readers = [300],
                 dr_allowed_writers = []\<rparr>],
             files = []\<rparr>,
        example_world\<lparr>auth_calls := [''sess-owner'']\<rparr>)"
    using GetDirectoryContent_filters [OF example_auth_owner, of id_parent]
      example_ids(1) example_find(1) cr s l1 l2 v
    by (simp add: Let_def)
  moreover have "GetDirectoryContent example_world meta_owner id_withfiles
     = (Inr \<lparr>directories = [],
             files =
               [\<lparr>fr_id = ''65a1f0c2b3d4e5f601020304'', fr_name = ''f1'',
                 fr_external_file_id = ''e1'', fr_is_public = False, fr_owner_id = 100,
                 fr_allowed_readers = [], fr_allowed_writers = [200]\<rparr>]\<rparr>,
        example_world\<lparr>auth_calls := [''sess-owner'']\<rparr>)"
    using GetDirectoryContent_filters [OF example_auth_owner, of id_withfiles]
      example_ids(3) example_find(3) cr s l1 l2 v
    by (simp add: Let_def)
  moreover have "GetDirectoryContent example_world [] []
     = (Inr \<lparr>directories =
               [\<lparr>dr_id = ''65a1f0c2b3d4e5f601020301'', dr_name = ''Parent'',
                 dr_parent_id = [], dr_is_public = True, dr_owner_id = 100,
                 dr_allowed_readers = [], dr_allowed_writers = [200]\<rparr>],
             files = []\<rparr>,
        example_world)"
    using GetDirectoryContent_filters [OF example_auth_anonymous, of "[]"] l1 l2 v
    by (simp add: Let_def)
  moreover have "fst (GetDirectoryContent example_world [] id_withfiles)
     = Inl (Abort PERMISSION_DENIED ''You do not have permission to view this directory'')"
    using GetDirectoryContent_filters [OF example_auth_anonymous, of id_withfiles]
      example_ids(3) example_find(3) cr
    by (simp add: Let_def)
  moreover have "GetDirectoryContent example_world [] ''65a1f0c2b3d4e5f6010203ff''
     = (Inl (Abort NOT_FOUND ''Directory not found''), example_world)"
    using GetDirectoryContent_filters [OF example_auth_anonymous,
        of "''65a1f0c2b3d4e5f6010203ff''"] o nf
    by (simp add: Let_def)
  ultimately show ?thesis by simp
qed

text \<open>
  C7 as stated answers \<^verbatim>\<open>NOT_FOUND\<close> for every id no directory has. No directory has
  the id \<^verbatim>\<open>abc\<close>, and the call ends with \<^verbatim>\<open>InvalidId\<close> instead: \<^verbatim>\<open>ObjectId(pid)\<close> raises
  before the lookup and nothing catches it.
\<close>

theorem GetDirectoryContent_malformed_id_counterexample:
  "''abc'' \<notin> doc_id ` set (dirs_col example_world)
   \<and> GetDirectoryContent example_world [] ''abc'' = (Inl (InvalidId ''abc''), example_world)
   \<and> fst (GetDirectoryContent example_world [] ''abc'')
       \<noteq> Inl (Abort NOT_FOUND ''Directory not found'')"
proof -
  have r: "GetDirectoryContent example_world [] ''abc''
             = (Inl (InvalidId ''abc''), example_world)"
    by (simp add: GetDirectoryContent_def example_auth_anonymous none_if_empty_def
        ObjectId_def Let_def)
  have m: "''abc'' \<notin> doc_id ` set (dirs_col example_world)"
    by (simp add: example_world_def dir_parent_def dir_child_def dir_withfiles_def
        id_parent_def id_child_def id_withfiles_def)
  show ?thesis using r m by simp
qed

end
